theory Spec2Isabelle
  imports Main "HOL-Library.Char_ord" "HOL-Library.List_Lexorder"
    "HOL-Library.Product_Lexorder"
begin

section \<open>Timestamps and errors\<close>

text \<open>
  Modelled from the spec: the class \<open>Timestamp\<close> of \<open>infrahub.core.timestamp\<close> is
  not part of the sources at hand. The specification describes it as a totally ordered
  instant that is usable both as a value and as a serialized string, whose canonical
  string form (ISO-8601, UTC, microsecond resolution) sorts like the instant. A timestamp
  is therefore a natural number of microseconds, and \<open>to_string\<close> is the identity.
  \<open>Timestamp(None)\<close> is the current time, which every operation below takes as the
  parameter \<open>now\<close>.
\<close>

type_synonym timestamp = nat

definition Timestamp :: "timestamp \<Rightarrow> timestamp option \<Rightarrow> timestamp" where
  "Timestamp now v = (case v of None \<Rightarrow> now | Some t \<Rightarrow> t)"

text \<open>The exceptions raised by the modelled code, with their messages.\<close>

datatype error =
    ValueError string
  | PyException string
  | BranchNotFound string
  | KeyError string
  | TypeError string

section \<open>Scalar attribute values: \<open>BaseAttribute.to_db\<close> and \<open>from_db\<close>\<close>

text \<open>
  The value of an attribute is any Python object (\<open>Any\<close>); the model keeps the scalar
  kinds, lists and \<open>None\<close>.
\<close>

datatype pyval =
    PyNone
  | PyStr string
  | PyInt int
  | PyBool bool
  | PyList "pyval list"

definition serialize :: "pyval \<Rightarrow> pyval" where
  "serialize v = v"

definition deserialize :: "pyval \<Rightarrow> pyval" where
  "deserialize v = v"

definition to_db :: "pyval \<Rightarrow> pyval" where
  "to_db v = (if v = PyNone then PyStr ''NULL'' else serialize v)"

definition from_db :: "pyval \<Rightarrow> pyval" where
  "from_db v = (if v = PyStr ''NULL'' then PyNone else deserialize v)"

section \<open>Branches\<close>

record Branch =
  name :: string
  status :: string
  description :: "string option"
  origin_branch :: string
  branched_from :: timestamp
  is_default :: bool
  is_protected :: bool
  is_data_only :: bool
  ephemeral_rebase :: bool

text \<open>
  \<open>get_branches_and_times_to_query\<close>: the dictionary that is returned is kept as the
  list of its items in insertion order, which is the order \<open>enumerate\<close> sees. The
  first parameter is \<open>config.SETTINGS.main.default_branch\<close>.
\<close>

definition get_branches_and_times_to_query ::
  "string \<Rightarrow> timestamp \<Rightarrow> Branch \<Rightarrow> timestamp option \<Rightarrow> (string \<times> timestamp) list" where
  "get_branches_and_times_to_query default_branch now self at_arg =
     (let at = Timestamp now at_arg in
      if name self = default_branch then [(default_branch, at)]
      else
        let time_default_branch = Timestamp now (Some (branched_from self));
            time_default_branch =
              (if ephemeral_rebase self \<or> at < time_default_branch then at
               else time_default_branch)
        in [(default_branch, time_default_branch), (name self, at)])"

section \<open>Python helpers: dictionaries, \<open>enumerate\<close>, decimal formatting\<close>

text \<open>
  A Python \<open>dict\<close> is the list of its items in insertion order. Assigning to a key
  that is present replaces the value in place, assigning to a new key appends the item.
\<close>

fun dict_set :: "('k \<times> 'v) list \<Rightarrow> 'k \<Rightarrow> 'v \<Rightarrow> ('k \<times> 'v) list" where
  "dict_set [] k v = [(k, v)]"
| "dict_set ((k', v') # d) k v = (if k' = k then (k, v) # d else (k', v') # dict_set d k v)"

definition enumerate_list :: "'a list \<Rightarrow> (nat \<times> 'a) list" where
  "enumerate_list xs = zip [0..<length xs] xs"

text \<open>The decimal digits of a number, as the f-string \<open>{idx}\<close> prints them.\<close>

fun str_nat :: "nat \<Rightarrow> string" where
  "str_nat n =
     (if n < 10 then [''0123456789'' ! n]
      else str_nat (n div 10) @ [''0123456789'' ! (n mod 10)])"

declare str_nat.simps [simp del]

section \<open>Edges and Cypher filter expressions\<close>

text \<open>
  Modelled from the spec: the enumeration \<open>RelationshipStatus\<close> of
  \<open>infrahub.core.constants\<close> is not part of the sources at hand; the specification
  gives its two members, ACTIVE and DELETED. Their string values stand for
  \<open>RelationshipStatus.ACTIVE.value\<close> and \<open>RelationshipStatus.DELETED.value\<close>.
\<close>

definition RelationshipStatus_ACTIVE :: string where
  "RelationshipStatus_ACTIVE = ''active''"

definition RelationshipStatus_DELETED :: string where
  "RelationshipStatus_DELETED = ''deleted''"

text \<open>The metadata every edge of the graph carries; \<open>to\<close> is absent on an open edge.\<close>

record edge =
  edge_branch :: string
  edge_from :: timestamp
  edge_to :: "timestamp option"
  edge_status :: string

text \<open>
  The filter methods of \<open>Branch\<close> build the text of a Cypher predicate with f-strings.
  The model builds the syntax tree of that text: one constructor for every shape of
  fragment the f-strings produce, and \<open>render\<close> gives the text back.
  \<open>Cmp l p op q\<close> is \<open>l.p op $q\<close>, \<open>IsNull l p\<close> is \<open>l.p IS NULL\<close>, \<open>Or\<close> is the
  separator \<open>" OR "\<close>, \<open>OrNl\<close> is the separator \<open>"\n OR "\<close> of the \<open>join\<close> calls,
  \<open>Paren\<close> is a pair of parentheses, \<open>Empty\<close> is the empty text.
\<close>

datatype cval = CStr string | CTime timestamp

datatype cmp_op = Eq | Le | Ge

datatype cypher =
    Cmp string string cmp_op string
  | IsNull string string
  | And cypher cypher
  | Or cypher cypher
  | OrNl cypher cypher
  | Paren cypher
  | Empty

fun join_or :: "cypher list \<Rightarrow> cypher" where
  "join_or [] = Empty"
| "join_or [f] = f"
| "join_or (f # g # fs) = OrNl f (join_or (g # fs))"

fun render_op :: "cmp_op \<Rightarrow> string" where
  "render_op Eq = ''=''"
| "render_op Le = ''<=''"
| "render_op Ge = ''>=''"

fun render :: "cypher \<Rightarrow> string" where
  "render (Cmp l p oper q) = l @ ''.'' @ p @ '' '' @ render_op oper @ '' $'' @ q"
| "render (IsNull l p) = l @ ''.'' @ p @ '' IS NULL''"
| "render (And a b) = render a @ '' AND '' @ render b"
| "render (Or a b) = render a @ '' OR '' @ render b"
| "render (OrNl a b) = render a @ [CHR 0x0A] @ '' OR '' @ render b"
| "render (Paren a) = ''('' @ render a @ '')''"
| "render Empty = ''''"

text \<open>
  The meaning of a predicate in a \<open>WHERE\<close> clause. A row binds each alias of the
  \<open>MATCH\<close> pattern to the properties of the vertex or edge it matched; the parameters
  are the dictionary returned with the filter. Cypher's logic has three values: a
  comparison with a missing property is \<open>null\<close> (\<open>None\<close> here), \<open>AND\<close> and \<open>OR\<close> are
  Kleene's connectives, and \<open>WHERE\<close> keeps a row only when the predicate is true.
\<close>

type_synonym properties = "(string \<times> cval) list"


fun k_and :: "bool option \<Rightarrow> bool option \<Rightarrow> bool option" where
  "k_and (Some False) _ = Some False"
| "k_and _ (Some False) = Some False"
| "k_and (Some True) (Some True) = Some True"
| "k_and _ _ = None"

fun k_or :: "bool option \<Rightarrow> bool option \<Rightarrow> bool option" where
  "k_or (Some True) _ = Some True"
| "k_or _ (Some True) = Some True"
| "k_or (Some False) (Some False) = Some False"
| "k_or _ _ = None"






section \<open>The query filters of a branch\<close>

text \<open>
  The three filter methods fill the parameter dictionary in the same way:
  \<open>params[f"branch{idx}"] = branch_name\<close> and \<open>params[f"time{idx}"] = time_to_query\<close>
  for every item of the branch-query dictionary.
\<close>

definition branch_params :: "(string \<times> timestamp) list \<Rightarrow> properties" where
  "branch_params branches_times =
     fold (\<lambda>(idx, (branch_name, time_to_query)) params.
             dict_set (dict_set params (''branch'' @ str_nat idx) (CStr branch_name))
               (''time'' @ str_nat idx) (CTime time_to_query))
       (enumerate_list branches_times) []"

definition get_query_filter_branch_to_node ::
  "string \<Rightarrow> timestamp \<Rightarrow> Branch \<Rightarrow> string \<Rightarrow> string \<Rightarrow> timestamp option \<Rightarrow> bool
     \<Rightarrow> cypher \<times> properties" where
  "get_query_filter_branch_to_node default_branch now self rel_label branch_label at_arg
       include_outside_parentheses =
     (let branches_times = get_branches_and_times_to_query default_branch now self at_arg;
          filters =
            map (\<lambda>(idx, (branch_name, time_to_query)).
                   Paren (And (Cmp branch_label ''name'' Eq (''branch'' @ str_nat idx))
                     (Paren (Or
                        (Paren (And (Cmp rel_label ''from'' Le (''time'' @ str_nat idx))
                                    (IsNull rel_label ''to'')))
                        (Paren (And (Cmp rel_label ''from'' Le (''time'' @ str_nat idx))
                                    (Cmp rel_label ''to'' Ge (''time'' @ str_nat idx))))))))
              (enumerate_list branches_times);
          params = branch_params branches_times
      in if \<not> include_outside_parentheses then (join_or filters, params)
         else (Paren (join_or filters), params))"


definition get_query_filter_path ::
  "string \<Rightarrow> timestamp \<Rightarrow> Branch \<Rightarrow> timestamp option \<Rightarrow> cypher \<times> properties" where
  "get_query_filter_path default_branch now self at_arg =
     (let at = Timestamp now at_arg;
          branches_times = get_branches_and_times_to_query default_branch now self (Some at);
          params = branch_params branches_times;
          filters =
            concat (map (\<lambda>(idx, (branch_name, time_to_query)).
              [Paren (And (And (Cmp ''r'' ''branch'' Eq (''branch'' @ str_nat idx))
                               (Cmp ''r'' ''from'' Le (''time'' @ str_nat idx)))
                          (IsNull ''r'' ''to'')),
               Paren (And (And (Cmp ''r'' ''branch'' Eq (''branch'' @ str_nat idx))
                               (Cmp ''r'' ''from'' Le (''time'' @ str_nat idx)))
                          (Cmp ''r'' ''to'' Ge (''time'' @ str_nat idx)))])
              (enumerate_list branches_times))
      in (Paren (join_or filters), params))"



section \<open>Example inputs\<close>

definition main_branch :: Branch where
  "main_branch = \<lparr>name = ''main'', status = ''OPEN'', description = None,
     origin_branch = ''main'', branched_from = 0, is_default = True, is_protected = False,
     is_data_only = False, ephemeral_rebase = False\<rparr>"

definition branch2 :: Branch where
  "branch2 = \<lparr>name = ''branch2'', status = ''OPEN'', description = None,
     origin_branch = ''main'', branched_from = 10, is_default = False, is_protected = False,
     is_data_only = False, ephemeral_rebase = False\<rparr>"



section \<open>The elements of a diff\<close>

text \<open>
  Modelled from the spec: the enumeration \<open>DiffAction\<close> of \<open>infrahub.core.constants\<close>
  is not part of the sources at hand; the specification gives its three members. A
  member stands for its \<open>.value\<close>.
\<close>

datatype DiffAction = ADDED | REMOVED | UPDATED

record PropertyDiffElement =
  prop_branch :: string
  prop_type :: string
  prop_action :: DiffAction
  prop_db_id :: nat
  prop_rel_id :: nat
  prop_origin_rel_id :: "nat option"
  prop_changed_at :: "timestamp option"

record NodeAttributeDiffElement =
  attr_id :: string
  attr_name :: string
  attr_action :: DiffAction
  attr_db_id :: nat
  attr_rel_id :: nat
  attr_origin_rel_id :: "nat option"
  attr_changed_at :: "timestamp option"
  attr_properties :: "(string \<times> PropertyDiffElement) list"

record NodeDiffElement =
  node_branch :: "string option"
  node_labels :: "string list"
  node_id :: string
  node_action :: DiffAction
  node_db_id :: nat
  node_rel_id :: "nat option"
  node_changed_at :: "timestamp option"
  node_attributes :: "(string \<times> NodeAttributeDiffElement) list"

record RelationshipEdgeNodeDiffElement =
  rel_node_id :: string
  rel_node_db_id :: nat
  rel_node_rel_id :: nat
  rel_node_labels :: "string list"

record RelationshipDiffElement =
  rel_branch :: "string option"
  rel_id :: string
  rel_db_id :: nat
  rel_name :: string
  rel_action :: DiffAction
  rel_nodes :: "(string \<times> RelationshipEdgeNodeDiffElement) list"
  rel_properties :: "(string \<times> PropertyDiffElement) list"
  rel_changed_at :: "timestamp option"

text \<open>
  One value of \<open>Diff._results\<close>: the dictionary \<open>dict(nodes={}, rels=defaultdict(dict),
  files={})\<close> kept for a branch. Nothing in the modelled code writes to \<open>files\<close>.
\<close>

record branch_results =
  nodes :: "(string \<times> NodeDiffElement) list"
  rels :: "(string \<times> (string \<times> RelationshipDiffElement) list) list"

record Diff =
  branch :: Branch
  diff_origin_branch :: Branch
  branch_only :: bool
  diff_from :: timestamp
  diff_to :: timestamp
  results :: "(string \<times> branch_results) list"
  calculated_diff_nodes_at :: "timestamp option"
  calculated_diff_rels_at :: "timestamp option"

section \<open>Constructing a \<open>Diff\<close> and a \<open>DiffQuery\<close>\<close>

text \<open>
  \<open>Diff.__init__\<close>. The function \<open>get_branch\<close> of \<open>infrahub.core\<close>, which
  \<open>Branch.get_origin_branch\<close> calls, is not part of the sources at hand and is the first
  parameter: it returns the branch of that name or raises. An argument \<open>diff_from\<close> or
  \<open>diff_to\<close> that is not supplied is \<open>None\<close>.
\<close>

definition get_origin_branch :: "(string \<Rightarrow> error + Branch) \<Rightarrow> Branch \<Rightarrow> error + Branch" where
  "get_origin_branch get_branch self = get_branch (origin_branch self)"

definition Diff_init ::
  "(string \<Rightarrow> error + Branch) \<Rightarrow> timestamp \<Rightarrow> Branch \<Rightarrow> bool \<Rightarrow> timestamp option
     \<Rightarrow> timestamp option \<Rightarrow> error + Diff" where
  "Diff_init get_branch now branch_arg branch_only_arg diff_from_arg diff_to_arg =
     (case get_origin_branch get_branch branch_arg of
        Inl e \<Rightarrow> Inl e
      | Inr origin \<Rightarrow>
          (case (if diff_from_arg \<noteq> None then Inr (Timestamp now diff_from_arg)
                 else if diff_from_arg = None \<and> \<not> is_default branch_arg
                   then Inr (Timestamp now (Some (branched_from branch_arg)))
                 else Inl (ValueError
                   (''diff_from is mandatory when diffing on the default branch `''
                     @ name branch_arg @ ''`.''))) of
             Inl e \<Rightarrow> Inl e
           | Inr diff_from_v \<Rightarrow>
               (let diff_to_v = Timestamp now diff_to_arg in
                if diff_to_v < diff_from_v
                  then Inl (ValueError ''diff_to must be later than diff_from'')
                else Inr \<lparr>branch = branch_arg, diff_origin_branch = origin,
                           branch_only = branch_only_arg, diff_from = diff_from_v,
                           diff_to = diff_to_v, results = [],
                           calculated_diff_nodes_at = None,
                           calculated_diff_rels_at = None\<rparr>)))"

text \<open>
  \<open>DiffQuery.__init__\<close>, up to the call of the constructor of \<open>Query\<close>, which is not
  part of the sources at hand.
\<close>

record DiffQuery =
  query_branch :: Branch
  query_diff_from :: timestamp
  query_diff_to :: timestamp
  branch_names :: "string list"

definition DiffQuery_init ::
  "timestamp \<Rightarrow> Branch \<Rightarrow> timestamp option \<Rightarrow> timestamp option \<Rightarrow> error + DiffQuery" where
  "DiffQuery_init now branch_arg diff_from_arg diff_to_arg =
     (case (if diff_from_arg \<noteq> None then Inr (Timestamp now diff_from_arg)
            else if diff_from_arg = None \<and> \<not> is_default branch_arg
              then Inr (Timestamp now (Some (branched_from branch_arg)))
            else Inl (ValueError
              ''diff_from is mandatory with the diff is on the main branch.'')) of
        Inl e \<Rightarrow> Inl e
      | Inr diff_from_v \<Rightarrow>
          (let diff_to_v = Timestamp now diff_to_arg in
           if diff_to_v < diff_from_v
             then Inl (ValueError ''diff_to must be later than diff_from'')
           else Inr \<lparr>query_branch = branch_arg, query_diff_from = diff_from_v,
                      query_diff_to = diff_to_v,
                      branch_names =
                        (if is_default branch_arg then [name branch_arg]
                         else [name branch_arg, origin_branch branch_arg])\<rparr>))"

text \<open>
  The resolved start of a diff as the specification words it: the supplied value, or
  \<open>branched_from\<close> of a branch that is not the default one.
\<close>

definition spec_resolved_diff_from :: "Branch \<Rightarrow> timestamp option \<Rightarrow> timestamp option" where
  "spec_resolved_diff_from B diff_from_arg =
     (case diff_from_arg of
        Some f \<Rightarrow> Some f
      | None \<Rightarrow> if is_default B then None else Some (branched_from B))"

definition registry_get_branch :: "string \<Rightarrow> error + Branch" where
  "registry_get_branch n =
     (if n = ''main'' then Inr main_branch
      else if n = ''branch2'' then Inr branch2
      else Inl (BranchNotFound n))"

section \<open>Rows returned by the database\<close>

text \<open>
  A vertex of a result carries its internal id, its labels and the properties that the
  modelled code reads from it (\<open>uuid\<close>, \<open>name\<close>, \<open>type\<close>). An edge of a result carries
  the edge metadata, its internal id and its type.
\<close>

record vertex =
  vertex_id :: nat
  vertex_labels :: "string list"
  vertex_uuid :: string
  vertex_name :: string
  vertex_type :: string

record db_edge = edge +
  edge_id :: nat
  edge_type :: string

text \<open>
  A row of \<open>DiffRelationshipQuery\<close>, with the return labels \<open>sn\<close>, \<open>dn\<close>, \<open>rel\<close>, \<open>r1\<close>,
  \<open>r2\<close>. The class \<open>QueryResult\<close> is not part of the sources at hand: the element ids of
  the items that iterating over a result yields, and its \<open>branch_score\<close>, are fields of
  the row.
\<close>

record rel_result =
  rr_sn :: vertex
  rr_dn :: vertex
  rr_rel :: vertex
  rr_r1 :: db_edge
  rr_r2 :: db_edge
  rr_element_ids :: "string list"
  rr_branch_score :: int

section \<open>\<open>DiffRelationshipQuery.get_results\<close>\<close>

text \<open>\<open>attrs_info[attr_key].append(info)\<close> on a \<open>defaultdict(list)\<close>.\<close>

fun defaultdict_append :: "('k \<times> 'v list) list \<Rightarrow> 'k \<Rightarrow> 'v \<Rightarrow> ('k \<times> 'v list) list" where
  "defaultdict_append [] k v = [(k, [v])]"
| "defaultdict_append ((k', vs) # d) k v =
     (if k' = k then (k', vs @ [v]) # d else (k', vs) # defaultdict_append d k v)"

text \<open>The key that one iteration of the first loop computes for a result.\<close>

definition rel_attr_key :: "rel_result \<Rightarrow> string" where
  "rel_attr_key result =
     (let source_node_uuid = drop 8 (vertex_uuid (rr_sn result));
          dest_node_uuid = drop 8 (vertex_uuid (rr_dn result));
          nodes = sort [source_node_uuid, dest_node_uuid];
          rel_name = vertex_name (rr_rel result);
          branch_name = edge_branch (rr_r1 result)
      in branch_name @ ''_'' @ nodes ! 0 @ ''__'' @ nodes ! 1 @ ''__'' @ rel_name)"

text \<open>
  One iteration of the first loop; the state is \<open>attrs_info\<close> and \<open>ids_set_processed\<close>,
  an entry \<open>info\<close> is the pair of \<open>idx\<close> and \<open>branch_score\<close>.
\<close>

definition rel_results_step ::
  "nat \<times> rel_result \<Rightarrow> (string \<times> (nat \<times> int) list) list \<times> string set list
     \<Rightarrow> (string \<times> (nat \<times> int) list) list \<times> string set list" where
  "rel_results_step x s =
     (case (x, s) of ((idx, result), (attrs_info, ids_set_processed)) \<Rightarrow>
        let ids_set = set (rr_element_ids result) in
        if ids_set \<in> set ids_set_processed then (attrs_info, ids_set_processed)
        else (defaultdict_append attrs_info (rel_attr_key result)
                (idx, rr_branch_score result),
              ids_set_processed @ [ids_set]))"

text \<open>
  \<open>sorted(values, key=lambda i: i["branch_score"], reverse=True)[0]\<close>: Python's sort is
  stable also with \<open>reverse=True\<close>, which is the stable ascending sort on the negated
  score.
\<close>

definition highest_branch_score :: "(nat \<times> int) list \<Rightarrow> nat \<times> int" where
  "highest_branch_score values = hd (sort_key (\<lambda>i. - snd i) values)"

definition get_results :: "rel_result list \<Rightarrow> rel_result list" where
  "get_results query_results =
     (if query_results = [] then []
      else
        let attrs_info = fst (fold rel_results_step (enumerate_list query_results) ([], []))
        in map (\<lambda>(attr_key, values). query_results ! fst (highest_branch_score values))
             attrs_info)"

text \<open>
  The key as the specification words it: the branch name, the sorted pair of the uuids
  of the endpoints, and the name of the relationship.
\<close>

definition spec_rel_key :: "rel_result \<Rightarrow> string \<times> string list \<times> string" where
  "spec_rel_key result =
     (edge_branch (rr_r1 result),
      sort [vertex_uuid (rr_sn result), vertex_uuid (rr_dn result)],
      vertex_name (rr_rel result))"

text \<open>
  The result at index \<open>i\<close> is the first one of the list with its set of element ids.
\<close>

definition first_with_ids :: "rel_result list \<Rightarrow> nat \<Rightarrow> bool" where
  "first_with_ids rs i =
     (i < length rs
      \<and> (\<forall>j < i. set (rr_element_ids (rs ! j)) \<noteq> set (rr_element_ids (rs ! i))))"

definition example_vertex :: "nat \<Rightarrow> string \<Rightarrow> string \<Rightarrow> vertex" where
  "example_vertex i u n =
     \<lparr>vertex_id = i, vertex_labels = [], vertex_uuid = u, vertex_name = n,
      vertex_type = n\<rparr>"

definition example_edge :: "nat \<Rightarrow> string \<Rightarrow> string \<Rightarrow> db_edge" where
  "example_edge i b t =
     \<lparr>edge_branch = b, edge_from = 12, edge_to = None, edge_status = ''active'',
      edge_id = i, edge_type = t\<rparr>"

definition example_rel_result ::
  "string \<Rightarrow> string \<Rightarrow> string \<Rightarrow> string list \<Rightarrow> int \<Rightarrow> rel_result" where
  "example_rel_result b su du ids score =
     \<lparr>rr_sn = example_vertex 1 su ''Person'', rr_dn = example_vertex 2 du ''Car'',
      rr_rel = example_vertex 3 ''99999999-rel'' ''car__person'',
      rr_r1 = example_edge 4 b ''IS_RELATED'', rr_r2 = example_edge 5 b ''IS_RELATED'',
      rr_element_ids = ids, rr_branch_score = score\<rparr>"

text \<open>
  The results that the first loop of \<open>get_results\<close> does not skip, given the sets of
  element ids that were processed before.
\<close>

fun kept :: "(nat \<times> rel_result) list \<Rightarrow> string set list \<Rightarrow> (nat \<times> rel_result) list" where
  "kept [] P = []"
| "kept ((i, r) # xs) P =
     (if set (rr_element_ids r) \<in> set P then kept xs P
      else (i, r) # kept xs (P @ [set (rr_element_ids r)]))"

text \<open>
  The uuids of two persons and of two cars; those of the persons, and those of the cars,
  agree from the ninth character on.
\<close>

definition person1_uuid :: string where
  "person1_uuid = ''11111111-aaaa-4aaa-8aaa-aaaaaaaaaaaa''"

definition car1_uuid :: string where
  "car1_uuid = ''22222222-bbbb-4bbb-8bbb-bbbbbbbbbbbb''"

definition person2_uuid :: string where
  "person2_uuid = ''33333333-aaaa-4aaa-8aaa-aaaaaaaaaaaa''"

definition car2_uuid :: string where
  "car2_uuid = ''44444444-bbbb-4bbb-8bbb-bbbbbbbbbbbb''"

text \<open>
  A path on \<open>branch2\<close>, the same path traversed from the other direction, and the same
  pair of endpoints on \<open>main\<close>.
\<close>

definition example_rel_results :: "rel_result list" where
  "example_rel_results =
     [example_rel_result ''branch2'' person1_uuid car1_uuid [''1'', ''2'', ''3''] 2,
      example_rel_result ''branch2'' car1_uuid person1_uuid [''3'', ''2'', ''1''] 2,
      example_rel_result ''main'' person1_uuid car1_uuid [''1'', ''2'', ''4''] 1]"

section \<open>The reads of the diff\<close>

text \<open>
  A row of \<open>DiffNodeQuery\<close> (return labels \<open>b\<close>, \<open>n\<close>, \<open>r\<close>), of \<open>DiffAttributeQuery\<close>
  (\<open>n\<close>, \<open>a\<close>, \<open>ap\<close>, \<open>r1\<close>, \<open>r2\<close>) and of \<open>DiffRelationshipPropertyQuery\<close> (\<open>sn\<close>,
  \<open>dn\<close>, \<open>rel\<close>, \<open>rp\<close>, \<open>r3\<close>, \<open>r1\<close>, \<open>r2\<close>).
\<close>

record node_result =
  nr_b :: vertex
  nr_n :: vertex
  nr_r :: db_edge

record attr_result =
  ar_n :: vertex
  ar_a :: vertex
  ar_ap :: vertex
  ar_r1 :: db_edge
  ar_r2 :: db_edge

record prop_result =
  pr_sn :: vertex
  pr_dn :: vertex
  pr_rel :: vertex
  pr_rp :: vertex
  pr_r3 :: db_edge
  pr_r1 :: db_edge
  pr_r2 :: db_edge
  pr_element_ids :: "string list"
  pr_branch_score :: int

text \<open>
  What the code reads from the graph and from its collaborators, none of which is part
  of the sources at hand. Executing a query is a function of the query object:
  \<^item> \<open>db_get_branch\<close> is \<open>get_branch\<close> of \<open>infrahub.core\<close>, also used for the lookup
    \<open>registry.branch[...]\<close>;
  \<^item> \<open>db_diff_node\<close> and \<open>db_diff_attribute\<close> are the results that \<open>get_results()\<close>
    yields after \<open>execute()\<close>; \<open>db_diff_relationship\<close> and
    \<open>db_diff_relationship_property\<close> are the raw \<open>results\<close>, which the \<open>get_results\<close>
    of these two classes reduce;
  \<^item> \<open>db_origin_attr ids branch at node_id attr_name\<close> is
    \<open>get_result_by_id_and_name\<close> of the executed \<open>NodeListGetAttributeQuery\<close>: nothing,
    or the id of the edge of the attribute for every property type;
  \<^item> \<open>db_origin_rel_property ids branch at rel_id prop_type\<close> is
    \<open>get_by_id_and_prop_type\<close> of the executed \<open>RelationshipListGetPropertiesQuery\<close>:
    nothing, or the id of the edge \<open>r\<close>;
  \<^item> \<open>db_repositories branch\<close> is the result of \<open>run_checks()\<close> for every repository
    that \<open>NodeManager.query("Repository", branch)\<close> returns;
  \<^item> \<open>db_origin_nodes ids branch\<close> gives, for the uuid of a node that
    \<open>NodeListGetInfoQuery\<close> returns, the id of its edge \<open>rb\<close>.
\<close>

record database =
  db_get_branch :: "string \<Rightarrow> error + Branch"
  db_diff_node :: "DiffQuery \<Rightarrow> node_result list"
  db_diff_attribute :: "DiffQuery \<Rightarrow> attr_result list"
  db_diff_relationship :: "DiffQuery \<Rightarrow> rel_result list"
  db_diff_relationship_property :: "DiffQuery \<Rightarrow> prop_result list"
  db_origin_attr ::
    "string set \<Rightarrow> Branch \<Rightarrow> timestamp \<Rightarrow> string \<Rightarrow> string \<Rightarrow> (string \<Rightarrow> nat) option"
  db_origin_rel_property ::
    "string list \<Rightarrow> Branch \<Rightarrow> timestamp \<Rightarrow> string \<Rightarrow> string \<Rightarrow> nat option"
  db_repositories :: "Branch \<Rightarrow> (bool \<times> string list) list"
  db_origin_nodes :: "string list \<Rightarrow> Branch \<Rightarrow> string \<Rightarrow> nat option"

section \<open>Python helpers: loops that may raise, \<open>defaultdict\<close>\<close>

text \<open>A \<open>for\<close> loop whose body may raise: the first error ends it.\<close>

fun fold_result :: "('a \<Rightarrow> 's \<Rightarrow> error + 's) \<Rightarrow> 'a list \<Rightarrow> 's \<Rightarrow> error + 's" where
  "fold_result f [] s = Inr s"
| "fold_result f (x # xs) s =
     (case f x s of Inl e \<Rightarrow> Inl e | Inr s' \<Rightarrow> fold_result f xs s')"

text \<open>
  \<open>d[k]\<close> on a \<open>defaultdict\<close> with default \<open>z\<close>: the value, and the dictionary, to which
  a missing key is added with the default.
\<close>

definition defaultdict_touch :: "'v \<Rightarrow> ('k \<times> 'v) list \<Rightarrow> 'k \<Rightarrow> ('k \<times> 'v) list" where
  "defaultdict_touch z d k = (if k \<in> fst ` set d then d else d @ [(k, z)])"

definition defaultdict_get :: "'v \<Rightarrow> ('k \<times> 'v) list \<Rightarrow> 'k \<Rightarrow> 'v" where
  "defaultdict_get z d k = (case map_of d k of None \<Rightarrow> z | Some v \<Rightarrow> v)"

section \<open>\<open>Diff._calculate_diff_nodes\<close> and \<open>Diff.get_nodes\<close>\<close>

definition empty_branch_results :: branch_results where
  "empty_branch_results = \<lparr>nodes = [], rels = []\<rparr>"

text \<open>\<open>self._results[branch_name]["nodes"]\<close>, read and assigned at a key.\<close>

definition results_nodes ::
  "(string \<times> branch_results) list \<Rightarrow> string \<Rightarrow> (string \<times> NodeDiffElement) list" where
  "results_nodes res branch_name = nodes (defaultdict_get empty_branch_results res branch_name)"

definition results_set_node ::
  "(string \<times> branch_results) list \<Rightarrow> string \<Rightarrow> string \<Rightarrow> NodeDiffElement
     \<Rightarrow> (string \<times> branch_results) list" where
  "results_set_node res branch_name node_id_v node =
     (let data = defaultdict_get empty_branch_results res branch_name
      in dict_set res branch_name (data\<lparr>nodes := dict_set (nodes data) node_id_v node\<rparr>))"

text \<open>
  The first loop: the nodes that were added or removed. With a status that is neither
  ACTIVE nor DELETED the item has no \<open>action\<close>, and the constructor of
  \<open>NodeDiffElement\<close> raises.
\<close>

definition diff_nodes_step ::
  "Diff \<Rightarrow> node_result \<Rightarrow> (string \<times> branch_results) list
     \<Rightarrow> error + (string \<times> branch_results) list" where
  "diff_nodes_step self result res =
     (let node_id_v = vertex_uuid (nr_n result);
          node_to = edge_to (nr_r result)
      in if (case node_to of None \<Rightarrow> False | Some t \<Rightarrow> t < diff_to self) then Inr res
         else
           let branch_status = edge_status (nr_r result);
               branch_name = vertex_name (nr_b result);
               from_time = edge_from (nr_r result);
               item = \<lparr>node_branch = Some (vertex_name (nr_b result)),
                       node_labels = vertex_labels (nr_n result), node_id = node_id_v,
                       node_action = UPDATED, node_db_id = vertex_id (nr_n result),
                       node_rel_id = Some (edge_id (nr_r result)),
                       node_changed_at = Some from_time, node_attributes = []\<rparr>
           in if branch_status = RelationshipStatus_ACTIVE then
                Inr (results_set_node res branch_name node_id_v
                       (item\<lparr>node_action := ADDED\<rparr>))
              else if branch_status = RelationshipStatus_DELETED then
                Inr (results_set_node res branch_name node_id_v
                       (item\<lparr>node_action := REMOVED\<rparr>))
              else Inl (TypeError ''NodeDiffElement: missing argument action''))"

text \<open>
  The second loop: the attributes. The state is \<open>_results\<close> with the two sets of
  \<open>attrs_to_query\<close>. Reading \<open>self._results[branch_name]\<close> adds the branch to the
  dictionary when it is missing.
\<close>

definition diff_attrs_step ::
  "Diff \<Rightarrow> attr_result \<Rightarrow> (string \<times> branch_results) list \<times> string set \<times> string set
     \<Rightarrow> (string \<times> branch_results) list \<times> string set \<times> string set" where
  "diff_attrs_step self result s =
     (case s of (res0, query_nodes, query_fields) \<Rightarrow>
        let node_id_v = vertex_uuid (ar_n result);
            branch_name = edge_branch (ar_r2 result);
            res1 = defaultdict_touch empty_branch_results res0 branch_name;
            (res2, node) =
              (case map_of (results_nodes res1 branch_name) node_id_v of
                 None \<Rightarrow>
                   (let item = \<lparr>node_branch = None, node_labels = vertex_labels (ar_n result),
                                 node_id = node_id_v, node_action = UPDATED,
                                 node_db_id = vertex_id (ar_n result), node_rel_id = None,
                                 node_changed_at = None, node_attributes = []\<rparr>
                    in (results_set_node res1 branch_name node_id_v item, item))
               | Some n \<Rightarrow> (res1, n));
            attr_name_v = vertex_name (ar_a result)
        in if attr_name_v \<notin> fst ` set (node_attributes node) then
             let item = \<lparr>attr_id = vertex_uuid (ar_a result), attr_name = attr_name_v,
                         attr_action = UPDATED, attr_db_id = vertex_id (ar_a result),
                         attr_rel_id = edge_id (ar_r1 result),
                         attr_origin_rel_id = None, attr_changed_at = None,
                         attr_properties = []\<rparr>;
                 attr_to = edge_to (ar_r1 result);
                 attr_from = edge_from (ar_r1 result);
                 branch_status = edge_status (ar_r1 result)
             in if (case attr_to of None \<Rightarrow> False | Some t \<Rightarrow> t < diff_to self)
                  then (res2, query_nodes, query_fields)
                else if node_action node = ADDED \<and> attr_from \<ge> diff_from self
                        \<and> branch_status = RelationshipStatus_ACTIVE then
                  (results_set_node res2 branch_name node_id_v
                     (node\<lparr>node_attributes := dict_set (node_attributes node) attr_name_v
                        (item\<lparr>attr_action := ADDED, attr_changed_at := Some attr_from\<rparr>)\<rparr>),
                   query_nodes, query_fields)
                else if attr_from \<ge> diff_from self
                        \<and> branch_status = RelationshipStatus_DELETED then
                  (results_set_node res2 branch_name node_id_v
                     (node\<lparr>node_attributes := dict_set (node_attributes node) attr_name_v
                        (item\<lparr>attr_action := REMOVED, attr_changed_at := Some attr_from\<rparr>)\<rparr>),
                   insert node_id_v query_nodes, insert attr_name_v query_fields)
                else
                  (results_set_node res2 branch_name node_id_v
                     (node\<lparr>node_attributes := dict_set (node_attributes node) attr_name_v
                        (item\<lparr>attr_action := UPDATED, attr_changed_at := None\<rparr>)\<rparr>),
                   insert node_id_v query_nodes, insert attr_name_v query_fields)
           else (res2, query_nodes, query_fields))"

text \<open>
  The classification of a property, the same in the third loop of the nodes and in the
  third loop of the relationships.
\<close>

definition property_action :: "Diff \<Rightarrow> bool \<Rightarrow> timestamp \<Rightarrow> string \<Rightarrow> DiffAction" where
  "property_action self has_origin prop_from branch_status =
     (if \<not> has_origin \<and> prop_from \<ge> diff_from self
         \<and> branch_status = RelationshipStatus_ACTIVE then ADDED
      else if prop_from \<ge> diff_from self \<and> branch_status = RelationshipStatus_DELETED
        then REMOVED
      else UPDATED)"

text \<open>
  The third loop: the properties of the attributes. The attribute is looked up without
  a default: a property whose attribute was skipped by the second loop raises
  \<open>KeyError\<close>.
\<close>

definition diff_props_step ::
  "Diff \<Rightarrow> (string \<Rightarrow> string \<Rightarrow> (string \<Rightarrow> nat) option) \<Rightarrow> attr_result
     \<Rightarrow> (string \<times> branch_results) list \<Rightarrow> error + (string \<times> branch_results) list" where
  "diff_props_step self origin_attr_query result res0 =
     (let node_id_v = vertex_uuid (ar_n result);
          branch_name = edge_branch (ar_r2 result);
          branch_status = edge_status (ar_r2 result);
          attr_name_v = vertex_name (ar_a result);
          prop_type_v = edge_type (ar_r2 result);
          origin_attr = origin_attr_query node_id_v attr_name_v;
          prop_to = edge_to (ar_r2 result);
          prop_from = edge_from (ar_r2 result)
      in if (case prop_to of None \<Rightarrow> False | Some t \<Rightarrow> t < diff_to self) then Inr res0
         else
           let item = \<lparr>prop_branch = branch_name, prop_type = prop_type_v,
                       prop_action = property_action self (origin_attr \<noteq> None) prop_from
                         branch_status,
                       prop_db_id = vertex_id (ar_ap result),
                       prop_rel_id = edge_id (ar_r2 result),
                       prop_origin_rel_id =
                         (case origin_attr of None \<Rightarrow> None | Some g \<Rightarrow> Some (g prop_type_v)),
                       prop_changed_at = Some prop_from\<rparr>;
               res1 = defaultdict_touch empty_branch_results res0 branch_name
           in case map_of (results_nodes res1 branch_name) node_id_v of
                None \<Rightarrow> Inl (KeyError node_id_v)
              | Some node \<Rightarrow>
                  (case map_of (node_attributes node) attr_name_v of
                     None \<Rightarrow> Inl (KeyError attr_name_v)
                   | Some attr \<Rightarrow>
                       Inr (results_set_node res1 branch_name node_id_v
                         (node\<lparr>node_attributes := dict_set (node_attributes node) attr_name_v
                            (attr\<lparr>attr_origin_rel_id := Some (edge_id (ar_r1 result)),
                                  attr_properties :=
                                    dict_set (attr_properties attr) prop_type_v item\<rparr>)\<rparr>))))"

text \<open>
  \<open>_calculate_diff_nodes\<close>. The two queries are constructed with the same arguments,
  so that one construction stands for both.
\<close>

definition calculate_diff_nodes :: "database \<Rightarrow> timestamp \<Rightarrow> Diff \<Rightarrow> error + Diff" where
  "calculate_diff_nodes db now self =
     (case DiffQuery_init now (branch self) (Some (diff_from self)) (Some (diff_to self)) of
        Inl e \<Rightarrow> Inl e
      | Inr query \<Rightarrow>
          (case fold_result (diff_nodes_step self) (db_diff_node db query) (results self) of
             Inl e \<Rightarrow> Inl e
           | Inr res1 \<Rightarrow>
               (case fold (diff_attrs_step self) (db_diff_attribute db query) (res1, {}, {}) of
                  (res2, query_nodes, query_fields) \<Rightarrow>
                    (case fold_result
                            (diff_props_step self
                               (db_origin_attr db query_nodes (diff_origin_branch self)
                                  (diff_to self)))
                            (db_diff_attribute db query) res2 of
                       Inl e \<Rightarrow> Inl e
                     | Inr res3 \<Rightarrow>
                         Inr (self\<lparr>results := res3,
                                    calculated_diff_nodes_at := Some now\<rparr>)))))"

definition get_nodes ::
  "database \<Rightarrow> timestamp \<Rightarrow> Diff
     \<Rightarrow> error + ((string \<times> (string \<times> NodeDiffElement) list) list \<times> Diff)" where
  "get_nodes db now self =
     (case (if calculated_diff_nodes_at self = None then calculate_diff_nodes db now self
            else Inr self) of
        Inl e \<Rightarrow> Inl e
      | Inr self' \<Rightarrow>
          Inr (map (\<lambda>(branch_name, data). (branch_name, nodes data)) (results self'), self'))"
section \<open>\<open>DiffRelationshipPropertyQuery.get_results\<close>\<close>

text \<open>
  The same reduction as for the relationships, with the type of the property edge
  added to the key.
\<close>

definition prop_attr_key :: "prop_result \<Rightarrow> string" where
  "prop_attr_key result =
     (let source_node_uuid = drop 8 (vertex_uuid (pr_sn result));
          dest_node_uuid = drop 8 (vertex_uuid (pr_dn result));
          prop_type_v = edge_type (pr_r3 result);
          nodes = sort [source_node_uuid, dest_node_uuid];
          rel_name = vertex_name (pr_rel result);
          branch_name = edge_branch (pr_r1 result)
      in branch_name @ ''_'' @ nodes ! 0 @ ''__'' @ nodes ! 1 @ ''__'' @ rel_name
           @ ''__'' @ prop_type_v)"

definition prop_results_step ::
  "nat \<times> prop_result \<Rightarrow> (string \<times> (nat \<times> int) list) list \<times> string set list
     \<Rightarrow> (string \<times> (nat \<times> int) list) list \<times> string set list" where
  "prop_results_step x s =
     (case (x, s) of ((idx, result), (attrs_info, ids_set_processed)) \<Rightarrow>
        let ids_set = set (pr_element_ids result) in
        if ids_set \<in> set ids_set_processed then (attrs_info, ids_set_processed)
        else (defaultdict_append attrs_info (prop_attr_key result)
                (idx, pr_branch_score result),
              ids_set_processed @ [ids_set]))"

definition prop_get_results :: "prop_result list \<Rightarrow> prop_result list" where
  "prop_get_results query_results =
     (if query_results = [] then []
      else
        let attrs_info = fst (fold prop_results_step (enumerate_list query_results) ([], []))
        in map (\<lambda>(attr_key, values). query_results ! fst (highest_branch_score values))
             attrs_info)"

section \<open>\<open>Diff._calculated_diff_rels\<close> and \<open>Diff.get_relationships\<close>\<close>

text \<open>
  \<open>self._results[branch_name]["rels"][rel_name]\<close>: reading it adds the branch and the
  relationship name to their dictionaries when they are missing.
\<close>

definition results_rels ::
  "(string \<times> branch_results) list \<Rightarrow> string \<Rightarrow> string
     \<Rightarrow> (string \<times> RelationshipDiffElement) list" where
  "results_rels res branch_name rel_name_v =
     defaultdict_get [] (rels (defaultdict_get empty_branch_results res branch_name))
       rel_name_v"

definition results_touch_rels ::
  "(string \<times> branch_results) list \<Rightarrow> string \<Rightarrow> string \<Rightarrow> (string \<times> branch_results) list" where
  "results_touch_rels res branch_name rel_name_v =
     (let data = defaultdict_get empty_branch_results res branch_name
      in dict_set res branch_name
           (data\<lparr>rels := defaultdict_touch [] (rels data) rel_name_v\<rparr>))"

definition results_set_rel ::
  "(string \<times> branch_results) list \<Rightarrow> string \<Rightarrow> string \<Rightarrow> string
     \<Rightarrow> RelationshipDiffElement \<Rightarrow> (string \<times> branch_results) list" where
  "results_set_rel res branch_name rel_name_v rel_id_v rel =
     (let data = defaultdict_get empty_branch_results res branch_name
      in dict_set res branch_name
           (data\<lparr>rels := dict_set (rels data) rel_name_v
              (dict_set (defaultdict_get [] (rels data) rel_name_v) rel_id_v rel)\<rparr>))"

text \<open>
  The dictionary \<open>nodes\<close> of a relationship element; both entries get the uuid of the
  source as their \<open>id\<close>, as in the source.
\<close>

definition rel_edge_nodes ::
  "vertex \<Rightarrow> vertex \<Rightarrow> db_edge \<Rightarrow> db_edge \<Rightarrow> (string \<times> RelationshipEdgeNodeDiffElement) list" where
  "rel_edge_nodes sn dn r1 r2 =
     (let src_node_id = vertex_uuid sn; dst_node_id = vertex_uuid dn
      in dict_set
           [(src_node_id, \<lparr>rel_node_id = src_node_id, rel_node_db_id = vertex_id sn,
                            rel_node_rel_id = edge_id r1, rel_node_labels = vertex_labels sn\<rparr>)]
           dst_node_id
           \<lparr>rel_node_id = src_node_id, rel_node_db_id = vertex_id dn,
            rel_node_rel_id = edge_id r2, rel_node_labels = vertex_labels dn\<rparr>)"

text \<open>The first loop: the relationships that were added or removed.\<close>

definition diff_rels_step ::
  "Diff \<Rightarrow> rel_result \<Rightarrow> (string \<times> branch_results) list \<times> string list
     \<Rightarrow> error + (string \<times> branch_results) list \<times> string list" where
  "diff_rels_step self result s =
     (case s of (res, rel_ids_to_query) \<Rightarrow>
        let branch_name = edge_branch (rr_r1 result);
            branch_status = edge_status (rr_r1 result);
            rel_name_v = vertex_type (rr_rel result);
            rel_id_v = vertex_uuid (rr_rel result);
            from_time = edge_from (rr_r1 result);
            item = \<lparr>rel_branch = Some branch_name, rel_id = rel_id_v,
                    rel_db_id = vertex_id (rr_rel result), rel_name = rel_name_v,
                    rel_action = UPDATED,
                    rel_nodes = rel_edge_nodes (rr_sn result) (rr_dn result) (rr_r1 result)
                      (rr_r2 result),
                    rel_properties = [], rel_changed_at = None\<rparr>
        in if branch_status = RelationshipStatus_ACTIVE then
             Inr (results_set_rel res branch_name rel_name_v rel_id_v
                    (item\<lparr>rel_action := ADDED, rel_changed_at := Some from_time\<rparr>),
                  rel_ids_to_query)
           else if branch_status = RelationshipStatus_DELETED then
             Inr (results_set_rel res branch_name rel_name_v rel_id_v
                    (item\<lparr>rel_action := REMOVED, rel_changed_at := Some from_time\<rparr>),
                  rel_ids_to_query @ [rel_id_v])
           else Inl (PyException (''Unexpected value for branch_status: '' @ branch_status)))"

text \<open>The second loop: the relationships of which only a property changed.\<close>

definition diff_rel_updated_step ::
  "prop_result \<Rightarrow> (string \<times> branch_results) list \<times> string list
     \<Rightarrow> (string \<times> branch_results) list \<times> string list" where
  "diff_rel_updated_step result s =
     (case s of (res0, rel_ids_to_query) \<Rightarrow>
        let branch_name = edge_branch (pr_r3 result);
            rel_name_v = vertex_type (pr_rel result);
            rel_id_v = vertex_uuid (pr_rel result);
            res1 = results_touch_rels res0 branch_name rel_name_v
        in if rel_id_v \<in> fst ` set (results_rels res1 branch_name rel_name_v)
             then (res1, rel_ids_to_query)
           else
             (results_set_rel res1 branch_name rel_name_v rel_id_v
                \<lparr>rel_branch = None, rel_id = rel_id_v, rel_db_id = vertex_id (pr_rel result),
                 rel_name = rel_name_v, rel_action = UPDATED,
                 rel_nodes = rel_edge_nodes (pr_sn result) (pr_dn result) (pr_r1 result)
                   (pr_r2 result),
                 rel_properties = [], rel_changed_at = None\<rparr>,
              rel_ids_to_query @ [rel_id_v]))"

text \<open>The third loop: the properties of the relationships.\<close>

definition diff_rel_props_step ::
  "Diff \<Rightarrow> (string \<Rightarrow> string \<Rightarrow> nat option) \<Rightarrow> prop_result
     \<Rightarrow> (string \<times> branch_results) list \<Rightarrow> error + (string \<times> branch_results) list" where
  "diff_rel_props_step self origin_rel_properties_query result res0 =
     (let branch_name = edge_branch (pr_r3 result);
          branch_status = edge_status (pr_r3 result);
          rel_name_v = vertex_type (pr_rel result);
          rel_id_v = vertex_uuid (pr_rel result);
          prop_type_v = edge_type (pr_r3 result);
          prop_from = edge_from (pr_r3 result);
          origin_prop = origin_rel_properties_query rel_id_v prop_type_v;
          prop = \<lparr>prop_branch = branch_name, prop_type = prop_type_v,
                  prop_action = property_action self (origin_prop \<noteq> None) prop_from
                    branch_status,
                  prop_db_id = vertex_id (pr_rp result), prop_rel_id = edge_id (pr_r3 result),
                  prop_origin_rel_id = origin_prop, prop_changed_at = Some prop_from\<rparr>;
          res1 = results_touch_rels res0 branch_name rel_name_v
      in case map_of (results_rels res1 branch_name rel_name_v) rel_id_v of
           None \<Rightarrow> Inl (KeyError rel_id_v)
         | Some rel \<Rightarrow>
             Inr (results_set_rel res1 branch_name rel_name_v rel_id_v
                    (rel\<lparr>rel_properties := dict_set (rel_properties rel) prop_type_v prop\<rparr>)))"

definition calculated_diff_rels :: "database \<Rightarrow> timestamp \<Rightarrow> Diff \<Rightarrow> error + Diff" where
  "calculated_diff_rels db now self =
     (case DiffQuery_init now (branch self) (Some (diff_from self)) (Some (diff_to self)) of
        Inl e \<Rightarrow> Inl e
      | Inr query \<Rightarrow>
          (let query_rels = get_results (db_diff_relationship db query);
               query_props = prop_get_results (db_diff_relationship_property db query)
           in case fold_result (diff_rels_step self) query_rels (results self, []) of
                Inl e \<Rightarrow> Inl e
              | Inr s1 \<Rightarrow>
                  (case fold diff_rel_updated_step query_props s1 of
                     (res2, rel_ids_to_query) \<Rightarrow>
                       (case fold_result
                               (diff_rel_props_step self
                                  (db_origin_rel_property db rel_ids_to_query
                                     (diff_origin_branch self) (diff_to self)))
                               query_props res2 of
                          Inl e \<Rightarrow> Inl e
                        | Inr res3 \<Rightarrow>
                            Inr (self\<lparr>results := res3,
                                       calculated_diff_rels_at := Some now\<rparr>)))))"

definition get_relationships ::
  "database \<Rightarrow> timestamp \<Rightarrow> Diff
     \<Rightarrow> error + ((string \<times> (string \<times> (string \<times> RelationshipDiffElement) list) list) list
                 \<times> Diff)" where
  "get_relationships db now self =
     (case (if calculated_diff_rels_at self = None then calculated_diff_rels db now self
            else Inr self) of
        Inl e \<Rightarrow> Inl e
      | Inr self' \<Rightarrow>
          Inr (map (\<lambda>(branch_name, data). (branch_name, rels data)) (results self'), self'))"
section \<open>Modified paths and conflicts\<close>

text \<open>A modified path is a tuple of four strings.\<close>

type_synonym path = "string \<times> string \<times> string \<times> string"

text \<open>\<open>paths[branch_name].add(p)\<close> on a \<open>defaultdict(set)\<close>.\<close>

fun defaultdict_add :: "('k \<times> 'v set) list \<Rightarrow> 'k \<Rightarrow> 'v \<Rightarrow> ('k \<times> 'v set) list" where
  "defaultdict_add [] k v = [(k, {v})]"
| "defaultdict_add ((k', vs) # d) k v =
     (if k' = k then (k', insert v vs) # d else (k', vs) # defaultdict_add d k v)"

text \<open>
  The two loops of \<open>get_modified_paths\<close>, over the dictionaries that \<open>get_nodes\<close> and
  \<open>get_relationships\<close> return. The fields \<open>branch\<close> and \<open>branch_only\<close> of a \<open>Diff\<close>
  are assigned by the constructor only.
\<close>

definition node_paths ::
  "Diff \<Rightarrow> (string \<times> (string \<times> NodeDiffElement) list) list \<Rightarrow> (string \<times> path set) list
     \<Rightarrow> (string \<times> path set) list" where
  "node_paths self nodes_by_branch paths0 =
     fold (\<lambda>(branch_name, data) paths.
        if branch_only self \<and> branch_name \<noteq> name (branch self) then paths
        else
          fold (\<lambda>(node_id_v, node) paths.
            fold (\<lambda>(attr_name_v, attr) paths.
              fold (\<lambda>(prop_type_v, prop) paths.
                  defaultdict_add paths branch_name
                    (''node'', node_id_v, attr_name_v, prop_type_v))
                (attr_properties attr) paths)
              (node_attributes node) paths)
            data paths)
       nodes_by_branch paths0"

definition rel_paths ::
  "Diff \<Rightarrow> (string \<times> (string \<times> (string \<times> RelationshipDiffElement) list) list) list
     \<Rightarrow> (string \<times> path set) list \<Rightarrow> (string \<times> path set) list" where
  "rel_paths self rels_by_branch paths0 =
     fold (\<lambda>(branch_name, data) paths.
        if branch_only self \<and> branch_name \<noteq> name (branch self) then paths
        else
          fold (\<lambda>(rel_name_v, rels_v) paths.
            fold (\<lambda>(rel_id_v, rel) paths.
              fold (\<lambda>(prop_type_v, prop) paths.
                  defaultdict_add paths branch_name
                    (''relationships'', rel_name_v, rel_id_v, prop_type_v))
                (rel_properties rel) paths)
              rels_v paths)
            data paths)
       rels_by_branch paths0"

definition get_modified_paths ::
  "database \<Rightarrow> timestamp \<Rightarrow> Diff \<Rightarrow> error + ((string \<times> path set) list \<times> Diff)" where
  "get_modified_paths db now self =
     (case get_nodes db now self of
        Inl e \<Rightarrow> Inl e
      | Inr (nodes_by_branch, self1) \<Rightarrow>
          (let paths = node_paths self nodes_by_branch []
           in case get_relationships db now self1 of
                Inl e \<Rightarrow> Inl e
              | Inr (rels_by_branch, self2) \<Rightarrow>
                  Inr (rel_paths self rels_by_branch paths, self2)))"

text \<open>
  \<open>get_conflicts\<close>. The empty list and the intersection of two sets are both returned
  as a set of paths.
\<close>

definition get_conflicts ::
  "database \<Rightarrow> timestamp \<Rightarrow> Diff \<Rightarrow> error + (path set \<times> Diff)" where
  "get_conflicts db now self =
     (if branch_only self then Inr ({}, self)
      else
        case get_modified_paths db now self of
          Inl e \<Rightarrow> Inl e
        | Inr (paths, self') \<Rightarrow>
            (let branches = map fst paths
             in if length branches < 2 then Inr ({}, self')
                else Inr (defaultdict_get {} paths (branches ! 0)
                            \<inter> defaultdict_get {} paths (branches ! 1), self')))"

text \<open>
  The changed properties of a branch in the dictionaries that \<open>get_nodes\<close> and
  \<open>get_relationships\<close> return: the uuid of the node, the name of the attribute and the
  kind of the property; the name of the relationship, its uuid and the kind of the
  property.
\<close>

definition changed_node_properties ::
  "(string \<times> (string \<times> NodeDiffElement) list) list \<Rightarrow> string
     \<Rightarrow> (string \<times> string \<times> string) set" where
  "changed_node_properties N b =
     {(node_id_v, attr_name_v, prop_type_v).
        \<exists>data node attr prop.
          (b, data) \<in> set N \<and> (node_id_v, node) \<in> set data
          \<and> (attr_name_v, attr) \<in> set (node_attributes node)
          \<and> (prop_type_v, prop) \<in> set (attr_properties attr)}"

definition changed_rel_properties ::
  "(string \<times> (string \<times> (string \<times> RelationshipDiffElement) list) list) list \<Rightarrow> string
     \<Rightarrow> (string \<times> string \<times> string) set" where
  "changed_rel_properties R b =
     {(rel_name_v, rel_id_v, prop_type_v).
        \<exists>data rels_v rel prop.
          (b, data) \<in> set R \<and> (rel_name_v, rels_v) \<in> set data
          \<and> (rel_id_v, rel) \<in> set rels_v
          \<and> (prop_type_v, prop) \<in> set (rel_properties rel)}"

text \<open>
  A dictionary of paths as \<open>get_modified_paths\<close> builds it: no branch has two entries,
  and no entry is empty.
\<close>

definition paths_wf :: "(string \<times> path set) list \<Rightarrow> bool" where
  "paths_wf P = (distinct (map fst P) \<and> (\<forall>(k, vs) \<in> set P. vs \<noteq> {}))"
section \<open>An example graph\<close>

text \<open>
  The branch \<open>branch2\<close> left \<open>main\<close> at time 10. Node \<open>A\<close> was added on \<open>branch2\<close> at 11
  with its attribute \<open>name\<close>. The value of \<open>C.name\<close> was updated on \<open>branch2\<close> at 12 and
  on \<open>main\<close> at 14, the value of \<open>C.description\<close> on \<open>branch2\<close> at 13, and the flag
  \<open>IS_VISIBLE\<close> of a relationship \<open>car__person\<close> on \<open>branch2\<close> at 15.
\<close>

definition mk_edge :: "nat \<Rightarrow> string \<Rightarrow> string \<Rightarrow> timestamp \<Rightarrow> string \<Rightarrow> db_edge" where
  "mk_edge i t b f s =
     \<lparr>edge_branch = b, edge_from = f, edge_to = None, edge_status = s,
      edge_id = i, edge_type = t\<rparr>"

definition example_node_results :: "node_result list" where
  "example_node_results =
     [\<lparr>nr_b = example_vertex 1 ''bbbbbbbb-0002'' ''branch2'',
       nr_n = example_vertex 10 ''aaaaaaaa-0001'' ''Person'',
       nr_r = mk_edge 50 ''IS_PART_OF'' ''branch2'' 11 ''active''\<rparr>]"

definition example_attr_results :: "attr_result list" where
  "example_attr_results =
     [\<lparr>ar_n = example_vertex 11 ''cccccccc-0001'' ''Person'',
       ar_a = example_vertex 20 ''dddddddd-0001'' ''name'',
       ar_ap = example_vertex 30 ''eeeeeeee-0001'' ''AttributeValue'',
       ar_r1 = mk_edge 51 ''HAS_ATTRIBUTE'' ''main'' 5 ''active'',
       ar_r2 = mk_edge 60 ''HAS_VALUE'' ''branch2'' 12 ''active''\<rparr>,
      \<lparr>ar_n = example_vertex 11 ''cccccccc-0001'' ''Person'',
       ar_a = example_vertex 20 ''dddddddd-0001'' ''name'',
       ar_ap = example_vertex 31 ''eeeeeeee-0002'' ''AttributeValue'',
       ar_r1 = mk_edge 51 ''HAS_ATTRIBUTE'' ''main'' 5 ''active'',
       ar_r2 = mk_edge 61 ''HAS_VALUE'' ''main'' 14 ''active''\<rparr>,
      \<lparr>ar_n = example_vertex 11 ''cccccccc-0001'' ''Person'',
       ar_a = example_vertex 21 ''dddddddd-0002'' ''description'',
       ar_ap = example_vertex 32 ''eeeeeeee-0003'' ''AttributeValue'',
       ar_r1 = mk_edge 52 ''HAS_ATTRIBUTE'' ''main'' 5 ''active'',
       ar_r2 = mk_edge 62 ''HAS_VALUE'' ''branch2'' 13 ''active''\<rparr>,
      \<lparr>ar_n = example_vertex 10 ''aaaaaaaa-0001'' ''Person'',
       ar_a = example_vertex 22 ''dddddddd-0003'' ''name'',
       ar_ap = example_vertex 33 ''eeeeeeee-0004'' ''AttributeValue'',
       ar_r1 = mk_edge 53 ''HAS_ATTRIBUTE'' ''branch2'' 11 ''active'',
       ar_r2 = mk_edge 63 ''HAS_VALUE'' ''branch2'' 11 ''active''\<rparr>]"

definition example_prop_results :: "prop_result list" where
  "example_prop_results =
     [\<lparr>pr_sn = example_vertex 12 ''ffffffff-0001'' ''Person'',
       pr_dn = example_vertex 13 ''ffffffff-0002'' ''Car'',
       pr_rel = example_vertex 40 ''99999999-0001'' ''car__person'',
       pr_rp = example_vertex 34 ''eeeeeeee-0005'' ''Boolean'',
       pr_r3 = mk_edge 64 ''IS_VISIBLE'' ''branch2'' 15 ''active'',
       pr_r1 = mk_edge 54 ''IS_RELATED'' ''main'' 5 ''active'',
       pr_r2 = mk_edge 55 ''IS_RELATED'' ''main'' 5 ''active'',
       pr_element_ids = [''12'', ''13'', ''40'', ''34'', ''64'', ''54'', ''55''],
       pr_branch_score = 2\<rparr>]"

definition example_db :: database where
  "example_db =
     \<lparr>db_get_branch = registry_get_branch,
      db_diff_node = (\<lambda>q. example_node_results),
      db_diff_attribute = (\<lambda>q. example_attr_results),
      db_diff_relationship = (\<lambda>q. []),
      db_diff_relationship_property = (\<lambda>q. example_prop_results),
      db_origin_attr = (\<lambda>ids b t node_id_v attr_name_v.
         if node_id_v = ''cccccccc-0001'' then Some (\<lambda>prop_type_v. 100) else None),
      db_origin_rel_property = (\<lambda>ids b t rel_id_v prop_type_v. Some 200),
      db_repositories = (\<lambda>b. []),
      db_origin_nodes = (\<lambda>ids b node_id_v. None)\<rparr>"

definition example_diff :: "bool \<Rightarrow> Diff" where
  "example_diff only =
     \<lparr>branch = branch2, diff_origin_branch = main_branch, branch_only = only,
      diff_from = 10, diff_to = 20, results = [],
      calculated_diff_nodes_at = None, calculated_diff_rels_at = None\<rparr>"

section \<open>Reading a change set\<close>

text \<open>
  The node and the attribute that a change set holds for a branch, the uuid of a node
  and the name of an attribute.
\<close>

definition results_node ::
  "(string \<times> branch_results) list \<Rightarrow> string \<Rightarrow> string \<Rightarrow> NodeDiffElement option" where
  "results_node res branch_name node_id_v = map_of (results_nodes res branch_name) node_id_v"

definition results_attr ::
  "(string \<times> branch_results) list \<Rightarrow> string \<Rightarrow> string \<Rightarrow> string
     \<Rightarrow> NodeAttributeDiffElement option" where
  "results_attr res branch_name node_id_v attr_name_v =
     (case results_node res branch_name node_id_v of
        None \<Rightarrow> None
      | Some node \<Rightarrow> map_of (node_attributes node) attr_name_v)"

text \<open>
  The action of the node that owns an attribute, in the change set that one iteration
  of the second loop receives: the action of the node when the change set has it, and
  UPDATED otherwise, since the loop then enters the node with that action before it
  looks at the attribute.
\<close>

definition owner_action ::
  "(string \<times> branch_results) list \<Rightarrow> string \<Rightarrow> string \<Rightarrow> DiffAction" where
  "owner_action res branch_name node_id_v =
     (case results_node res branch_name node_id_v of
        None \<Rightarrow> UPDATED
      | Some node \<Rightarrow> node_action node)"

definition example_removed_attr_result :: attr_result where
  "example_removed_attr_result =
     \<lparr>ar_n = example_vertex 11 ''cccccccc-0001'' ''Person'',
      ar_a = example_vertex 23 ''dddddddd-0004'' ''color'',
      ar_ap = example_vertex 35 ''eeeeeeee-0006'' ''AttributeValue'',
      ar_r1 = mk_edge 56 ''HAS_ATTRIBUTE'' ''branch2'' 16 ''deleted'',
      ar_r2 = mk_edge 65 ''HAS_VALUE'' ''branch2'' 16 ''deleted''\<rparr>"

definition example_added_node_results :: "(string \<times> branch_results) list" where
  "example_added_node_results =
     [(''branch2'',
       \<lparr>nodes =
          [(''aaaaaaaa-0001'',
            \<lparr>node_branch = Some ''branch2'', node_labels = [],
             node_id = ''aaaaaaaa-0001'', node_action = ADDED, node_db_id = 10,
             node_rel_id = Some 50, node_changed_at = Some 11, node_attributes = []\<rparr>)],
        rels = []\<rparr>)]"

section \<open>\<open>Branch.validate\<close> and \<open>Branch.merge\<close>\<close>

definition Branch_diff ::
  "database \<Rightarrow> timestamp \<Rightarrow> Branch \<Rightarrow> timestamp option \<Rightarrow> timestamp option \<Rightarrow> error + Diff" where
  "Branch_diff db now self diff_from_arg diff_to_arg =
     Diff_init (db_get_branch db) now self False diff_from_arg diff_to_arg"

text \<open>\<open>f"Conflict detected at {'/'.join(conflict)}"\<close>\<close>

definition conflict_message :: "path \<Rightarrow> string" where
  "conflict_message conflict =
     (case conflict of (a, b, c, d) \<Rightarrow>
        ''Conflict detected at '' @ a @ ''/'' @ b @ ''/'' @ c @ ''/'' @ d)"

text \<open>
  \<open>validate\<close>. Python iterates over the set of conflicts in an order that it does not
  specify; the model takes the ascending order.
\<close>

definition validate :: "database \<Rightarrow> timestamp \<Rightarrow> Branch \<Rightarrow> error + (bool \<times> string list)" where
  "validate db now self =
     (case Branch_diff db now self None None of
        Inl e \<Rightarrow> Inl e
      | Inr d \<Rightarrow>
          (case get_conflicts db now d of
             Inl e \<Rightarrow> Inl e
           | Inr (conflicts, d') \<Rightarrow>
               (let s0 = (if conflicts \<noteq> {}
                          then (False, map conflict_message (sorted_list_of_set conflicts))
                          else (True, []));
                    repos = db_repositories db self
                in Inr (fold (\<lambda>(result, errors) (passed, messages).
                               if \<not> result then (False, messages @ errors)
                               else (passed, messages))
                          repos s0))))"

text \<open>
  The writes of \<open>merge\<close> to the graph: the queries \<open>AddNodeToBranch\<close> and
  \<open>NodeDeleteQuery\<close>, the calls of \<open>add_relationship\<close> (source, destination, type, time,
  branch name and the status when one is passed) and of \<open>update_relationships_to\<close>, and
  saving the branch in \<open>rebase\<close>.
\<close>

datatype graph_write =
    AddNodeToBranch nat string
  | NodeDeleteQuery string string timestamp
  | AddRelationship nat nat string timestamp string "string option"
  | UpdateRelationshipsTo "nat option list" timestamp
  | SaveBranch Branch

text \<open>
  The loops of \<open>merge\<close>. Their state is the list of the writes performed so far and
  \<open>rel_ids_to_update\<close>.
\<close>

definition merge_prop_step ::
  "timestamp \<Rightarrow> Branch \<Rightarrow> NodeAttributeDiffElement \<Rightarrow> string \<times> PropertyDiffElement
     \<Rightarrow> graph_write list \<times> nat option list \<Rightarrow> graph_write list \<times> nat option list" where
  "merge_prop_step at default_branch attr x s =
     (case (x, s) of ((prop_type_v, prop), (writes, rel_ids_to_update)) \<Rightarrow>
        if prop_action prop = ADDED then
          (writes @ [AddRelationship (attr_db_id attr) (prop_db_id prop) prop_type_v at
                       (name default_branch) None],
           rel_ids_to_update @ [Some (prop_rel_id prop)])
        else if prop_action prop = UPDATED then
          (writes @ [AddRelationship (attr_db_id attr) (prop_db_id prop) prop_type_v at
                       (name default_branch) None],
           rel_ids_to_update @ [Some (prop_rel_id prop), prop_origin_rel_id prop])
        else if prop_action prop = REMOVED then
          (writes @ [AddRelationship (attr_db_id attr) (prop_db_id prop) prop_type_v at
                       (name default_branch) (Some RelationshipStatus_DELETED)],
           rel_ids_to_update @ [Some (prop_rel_id prop), prop_origin_rel_id prop])
        else (writes, rel_ids_to_update))"

definition merge_attr_step ::
  "timestamp \<Rightarrow> Branch \<Rightarrow> NodeDiffElement \<Rightarrow> string \<times> NodeAttributeDiffElement
     \<Rightarrow> graph_write list \<times> nat option list \<Rightarrow> graph_write list \<times> nat option list" where
  "merge_attr_step at default_branch node x s =
     (case (x, s) of ((attr_name_v, attr), (writes, rel_ids_to_update)) \<Rightarrow>
        let s1 =
          (if attr_action attr = ADDED then
             (writes @ [AddRelationship (node_db_id node) (attr_db_id attr) ''HAS_ATTRIBUTE''
                          at (name default_branch) None],
              rel_ids_to_update @ [Some (attr_rel_id attr)])
           else if attr_action attr = REMOVED then
             (writes @ [AddRelationship (node_db_id node) (attr_db_id attr) ''HAS_ATTRIBUTE''
                          at (name default_branch) (Some RelationshipStatus_DELETED)],
              rel_ids_to_update @ [Some (attr_rel_id attr), attr_origin_rel_id attr])
           else (writes, rel_ids_to_update))
        in fold (merge_prop_step at default_branch attr) (attr_properties attr) s1)"

text \<open>
  A removed node is deleted on the default branch before \<open>origin_nodes[node_id]\<close> is
  read; when the node is missing there, the lookup raises after that write.
\<close>

definition merge_node_step ::
  "timestamp \<Rightarrow> Branch \<Rightarrow> (string \<Rightarrow> nat option) \<Rightarrow> string \<times> NodeDiffElement
     \<Rightarrow> graph_write list \<times> nat option list
     \<Rightarrow> graph_write list \<times> (error + nat option list)" where
  "merge_node_step at default_branch origin_nodes x s =
     (case (x, s) of ((node_id_v, node), (writes, rel_ids_to_update)) \<Rightarrow>
        case (if node_action node = ADDED then
                (writes @ [AddNodeToBranch (node_db_id node) (name default_branch)],
                 Inr (rel_ids_to_update @ [node_rel_id node]))
              else if node_action node = REMOVED then
                (writes @ [NodeDeleteQuery (name default_branch) node_id_v at],
                 case origin_nodes node_id_v of
                   None \<Rightarrow> Inl (KeyError node_id_v)
                 | Some rb \<Rightarrow> Inr (rel_ids_to_update @ [node_rel_id node, Some rb]))
              else (writes, Inr rel_ids_to_update)) of
          (writes1, Inl e) \<Rightarrow> (writes1, Inl e)
        | (writes1, Inr ids1) \<Rightarrow>
            (case fold (merge_attr_step at default_branch node) (node_attributes node)
                    (writes1, ids1) of
               (writes2, ids2) \<Rightarrow> (writes2, Inr ids2)))"

fun merge_nodes ::
  "timestamp \<Rightarrow> Branch \<Rightarrow> (string \<Rightarrow> nat option) \<Rightarrow> (string \<times> NodeDiffElement) list
     \<Rightarrow> graph_write list \<times> nat option list
     \<Rightarrow> graph_write list \<times> (error + nat option list)" where
  "merge_nodes at default_branch origin_nodes [] s = (fst s, Inr (snd s))"
| "merge_nodes at default_branch origin_nodes (x # xs) s =
     (case merge_node_step at default_branch origin_nodes x s of
        (writes, Inl e) \<Rightarrow> (writes, Inl e)
      | (writes, Inr ids) \<Rightarrow> merge_nodes at default_branch origin_nodes xs (writes, ids))"

definition merge_rel_step ::
  "timestamp \<Rightarrow> Branch \<Rightarrow> string \<times> RelationshipDiffElement
     \<Rightarrow> graph_write list \<times> nat option list \<Rightarrow> graph_write list \<times> nat option list" where
  "merge_rel_step at default_branch x s =
     (case x of (rel_id_v, rel) \<Rightarrow>
        let s1 =
          fold (\<lambda>(k, node) (writes, rel_ids_to_update).
                  if rel_action rel = ADDED \<or> rel_action rel = REMOVED then
                    (writes @ [AddRelationship (rel_node_db_id node) (rel_db_id rel)
                                 ''IS_RELATED'' at (name default_branch)
                                 (Some (if rel_action rel = REMOVED
                                        then RelationshipStatus_DELETED
                                        else RelationshipStatus_ACTIVE))],
                     rel_ids_to_update @ [Some (rel_node_rel_id node)])
                  else (writes, rel_ids_to_update))
            (rel_nodes rel) s
        in fold (\<lambda>(prop_type_v, prop) (writes, rel_ids_to_update).
                   (writes @ [AddRelationship (rel_db_id rel) (prop_db_id prop) (prop_type prop)
                                at (name default_branch) None],
                    rel_ids_to_update @ [Some (prop_rel_id prop)]
                      @ (if rel_action rel = UPDATED \<or> rel_action rel = REMOVED
                         then [prop_origin_rel_id prop] else [])))
             (rel_properties rel) s1)"

definition merge_rels ::
  "timestamp \<Rightarrow> Branch \<Rightarrow> (string \<times> (string \<times> RelationshipDiffElement) list) list
     \<Rightarrow> graph_write list \<times> nat option list \<Rightarrow> graph_write list \<times> nat option list" where
  "merge_rels at default_branch branch_rels s =
     fold (\<lambda>(rel_name_v, rels_v) s. fold (merge_rel_step at default_branch) rels_v s)
       branch_rels s"

text \<open>
  \<open>merge\<close> returns the writes that were performed and either the error that was raised
  or the branch after \<open>rebase\<close>. The first parameter is
  \<open>config.SETTINGS.main.default_branch\<close>. The body of \<open>merge\<close> after its two checks is
  \<open>merge_changes\<close>.
\<close>

definition merge_changes ::
  "string \<Rightarrow> database \<Rightarrow> timestamp \<Rightarrow> Branch \<Rightarrow> timestamp option
     \<Rightarrow> graph_write list \<times> (error + Branch)" where
  "merge_changes default_branch_name db now self at_arg =
     (case db_get_branch db default_branch_name of
        Inl e \<Rightarrow> ([], Inl e)
      | Inr default_branch \<Rightarrow>
          (let at = Timestamp now at_arg in
           case Diff_init (db_get_branch db) now self False None None of
             Inl e \<Rightarrow> ([], Inl e)
           | Inr d \<Rightarrow>
               (case get_nodes db now d of
                  Inl e \<Rightarrow> ([], Inl e)
                | Inr (nodes_v, d1) \<Rightarrow>
                    (case map_of nodes_v (name self) of
                       None \<Rightarrow> ([], Inl (KeyError (name self)))
                     | Some branch_nodes \<Rightarrow>
                         (case merge_nodes at default_branch
                                 (db_origin_nodes db (map fst branch_nodes) default_branch)
                                 branch_nodes ([], []) of
                            (writes1, Inl e) \<Rightarrow> (writes1, Inl e)
                          | (writes1, Inr ids1) \<Rightarrow>
                              (case get_relationships db now d1 of
                                 Inl e \<Rightarrow> (writes1, Inl e)
                               | Inr (rels_v, d2) \<Rightarrow>
                                   (case map_of rels_v (name self) of
                                      None \<Rightarrow> (writes1, Inl (KeyError (name self)))
                                    | Some branch_rels \<Rightarrow>
                                        (case merge_rels at default_branch branch_rels
                                                (writes1, ids1) of
                                           (writes2, ids2) \<Rightarrow>
                                             (let self' = self\<lparr>branched_from := now\<rparr>
                                              in (writes2
                                                    @ [UpdateRelationshipsTo ids2 at,
                                                       SaveBranch self'],
                                                  Inr self'))))))))))"

definition merge ::
  "string \<Rightarrow> database \<Rightarrow> timestamp \<Rightarrow> Branch \<Rightarrow> timestamp option
     \<Rightarrow> graph_write list \<times> (error + Branch)" where
  "merge default_branch_name db now self at_arg =
     (case validate db now self of
        Inl e \<Rightarrow> ([], Inl e)
      | Inr (passed, messages) \<Rightarrow>
          if \<not> passed then
            ([], Inl (PyException (''Unable to merge the branch '' @ [CHR 0x27] @ name self
                                    @ [CHR 0x27] @ '', validation failed'')))
          else if name self = default_branch_name then
            ([], Inl (PyException (''Unable to merge the branch '' @ [CHR 0x27] @ name self
                                    @ [CHR 0x27] @ '' into itself'')))
          else merge_changes default_branch_name db now self at_arg)"

text \<open>
  Variants of the example graph: the update on \<open>main\<close> is to \<open>C.description\<close> instead of
  \<open>C.name\<close>; there is no update on \<open>main\<close>; there is no update on \<open>main\<close> and a
  repository whose checks fail.
\<close>

definition example_db_description :: database where
  "example_db_description =
     example_db\<lparr>db_diff_attribute := (\<lambda>q.
       [example_attr_results ! 0,
        \<lparr>ar_n = example_vertex 11 ''cccccccc-0001'' ''Person'',
         ar_a = example_vertex 21 ''dddddddd-0002'' ''description'',
         ar_ap = example_vertex 36 ''eeeeeeee-0007'' ''AttributeValue'',
         ar_r1 = mk_edge 52 ''HAS_ATTRIBUTE'' ''main'' 5 ''active'',
         ar_r2 = mk_edge 66 ''HAS_VALUE'' ''main'' 14 ''active''\<rparr>,
        example_attr_results ! 2, example_attr_results ! 3])\<rparr>"

definition example_db_clean :: database where
  "example_db_clean =
     example_db\<lparr>db_diff_attribute := (\<lambda>q.
       [example_attr_results ! 0, example_attr_results ! 2, example_attr_results ! 3])\<rparr>"

definition example_db_failing_check :: database where
  "example_db_failing_check =
     example_db_clean\<lparr>db_repositories := (\<lambda>b. [(True, []), (False, [''check failed''])])\<rparr>"

section \<open>Properties of the serialization\<close>

text \<open>
  Claim C10. For the scalar serialization of \<open>BaseAttribute\<close>, reading back what was
  stored returns the value for every value other than \<open>None\<close> and the literal string
  \<open>NULL\<close>; \<open>None\<close> is stored as the string \<open>NULL\<close>, the string \<open>NULL\<close> is read as
  \<open>None\<close>, and so a stored literal \<open>NULL\<close> is read back exactly as an absent value is.
\<close>

theorem to_db_from_db_roundtrip:
  "(v \<noteq> PyNone \<and> v \<noteq> PyStr ''NULL'' \<longrightarrow> from_db (to_db v) = v)
   \<and> to_db PyNone = PyStr ''NULL''
   \<and> from_db (PyStr ''NULL'') = PyNone
   \<and> from_db (to_db (PyStr ''NULL'')) = from_db (to_db PyNone)"
  by (simp add: to_db_def from_db_def serialize_def deserialize_def)

theorem to_db_from_db_roundtrip_witness:
  "PyInt 4 \<noteq> PyNone \<and> PyInt 4 \<noteq> PyStr ''NULL'' \<and> from_db (to_db (PyInt 4)) = PyInt 4
   \<and> from_db (to_db (PyStr ''NULL'')) = PyNone"
  using to_db_from_db_roundtrip [of "PyInt 4"]
  by (simp add: to_db_def from_db_def serialize_def deserialize_def)

section \<open>Properties of the branch-query set\<close>

text \<open>
  Claim C2. For the default branch the branch-query set is the single entry
  \<open>default \<mapsto> t\<close>. For any other branch it consists of exactly the two entries
  \<open>default \<mapsto> t_parent\<close> and \<open>B \<mapsto> t\<close>, where \<open>t_parent\<close> is \<open>branched_from B\<close>, replaced
  by \<open>t\<close> when \<open>B\<close> has \<open>ephemeral_rebase\<close> set or \<open>t\<close> lies before \<open>branched_from B\<close>.
\<close>

theorem get_branches_and_times_to_query_spec:
  "get_branches_and_times_to_query default_branch now B at_arg =
     (let t = (case at_arg of None \<Rightarrow> now | Some t' \<Rightarrow> t') in
      if name B = default_branch then [(default_branch, t)]
      else [(default_branch,
             if ephemeral_rebase B \<or> t < branched_from B then t else branched_from B),
            (name B, t)])"
  by (simp add: get_branches_and_times_to_query_def Timestamp_def Let_def)

section \<open>Properties of the query filters\<close>

lemma str_nat_0: "str_nat 0 = ''0''"
  by (simp add: str_nat.simps)

lemma str_nat_1: "str_nat (Suc 0) = ''1''"
  by (simp add: str_nat.simps)

lemma k_and_True [simp]: "k_and a b = Some True \<longleftrightarrow> a = Some True \<and> b = Some True"
  by (cases "(a, b)" rule: k_and.cases) auto

lemma k_or_True [simp]: "k_or a b = Some True \<longleftrightarrow> a = Some True \<or> b = Some True"
  by (cases "(a, b)" rule: k_or.cases) auto



text \<open>The text of the filters at two inputs, and the parameters that go with them.\<close>

lemma render_get_query_filter_path_main:
  "render (fst (get_query_filter_path ''main'' 20 main_branch None)) =
   ''((r.branch = $branch0 AND r.from <= $time0 AND r.to IS NULL)'' @ [CHR 0x0A] @
   '' OR (r.branch = $branch0 AND r.from <= $time0 AND r.to >= $time0))''"
  by (simp add: get_query_filter_path_def get_branches_and_times_to_query_def main_branch_def
      Timestamp_def enumerate_list_def str_nat_0)

lemma render_get_query_filter_branch_to_node_branch2:
  "render (fst (get_query_filter_branch_to_node ''main'' 20 branch2 ''r'' ''b'' None False)) =
   ''(b.name = $branch0 AND ((r.from <= $time0 AND r.to IS NULL)''
   @ '' OR (r.from <= $time0 AND r.to >= $time0)))''
   @ [CHR 0x0A] @
   '' OR (b.name = $branch1 AND ((r.from <= $time1 AND r.to IS NULL)''
   @ '' OR (r.from <= $time1 AND r.to >= $time1)))''"
  by (simp add: get_query_filter_branch_to_node_def get_branches_and_times_to_query_def
      branch2_def Timestamp_def enumerate_list_def str_nat_0 str_nat_1)

lemma params_get_query_filter_path_branch2:
  "snd (get_query_filter_path ''main'' 20 branch2 None) =
   [(''branch0'', CStr ''main''), (''time0'', CTime 10),
    (''branch1'', CStr ''branch2''), (''time1'', CTime 20)]"
  by (simp add: get_query_filter_path_def get_branches_and_times_to_query_def branch2_def
      Timestamp_def enumerate_list_def str_nat_0 str_nat_1 branch_params_def)







section \<open>Properties of the constructors of \<open>Diff\<close> and \<open>DiffQuery\<close>\<close>

lemma Diff_init_mandatory:
  "is_default B \<Longrightarrow> \<exists>e. Diff_init gb now B bo None dt = Inl e"
  by (simp add: Diff_init_def split: sum.splits)

lemma DiffQuery_init_mandatory:
  "is_default B \<Longrightarrow> \<exists>e. DiffQuery_init now B None dt = Inl e"
  by (simp add: DiffQuery_init_def)

lemma Diff_init_order:
  "spec_resolved_diff_from B df = Some f \<Longrightarrow> Timestamp now dt < f \<Longrightarrow>
   \<exists>e. Diff_init gb now B bo df dt = Inl e"
  by (auto simp: Diff_init_def spec_resolved_diff_from_def Timestamp_def
      split: sum.splits option.splits if_splits)

lemma DiffQuery_init_order:
  "spec_resolved_diff_from B df = Some f \<Longrightarrow> Timestamp now dt < f \<Longrightarrow>
   \<exists>e. DiffQuery_init now B df dt = Inl e"
  by (auto simp: DiffQuery_init_def spec_resolved_diff_from_def Timestamp_def
      split: option.splits if_splits)

lemma DiffQuery_init_ok:
  "spec_resolved_diff_from B df = Some f \<Longrightarrow> f \<le> Timestamp now dt \<Longrightarrow>
   \<exists>q. DiffQuery_init now B df dt = Inr q \<and> query_diff_from q = f
        \<and> query_diff_to q = Timestamp now dt"
  by (auto simp: DiffQuery_init_def spec_resolved_diff_from_def Timestamp_def
      split: option.splits if_splits)

lemma Diff_init_ok:
  "spec_resolved_diff_from B df = Some f \<Longrightarrow> f \<le> Timestamp now dt \<Longrightarrow>
   Diff_init gb now B bo df dt =
     (case gb (origin_branch B) of
        Inl e \<Rightarrow> Inl e
      | Inr ob \<Rightarrow> Inr \<lparr>branch = B, diff_origin_branch = ob, branch_only = bo,
                       diff_from = f, diff_to = Timestamp now dt, results = [],
                       calculated_diff_nodes_at = None, calculated_diff_rels_at = None\<rparr>)"
  by (auto simp: Diff_init_def get_origin_branch_def spec_resolved_diff_from_def Timestamp_def
      split: sum.splits option.splits if_splits)

text \<open>
  Claim C8. Constructing a \<open>Diff\<close> or a \<open>DiffQuery\<close> raises an error when the branch is
  the default one and \<open>diff_from\<close> is not supplied, and raises an error when the resolved
  \<open>diff_to\<close> is earlier than the resolved \<open>diff_from\<close>. Without a supplied \<open>diff_from\<close>
  the start of the diff of a branch that is not the default one is its
  \<open>branched_from\<close>. When the resolved \<open>diff_from\<close> is not later than the resolved
  \<open>diff_to\<close>, the \<open>DiffQuery\<close> is constructed, and so is the \<open>Diff\<close> with the origin
  branch that the lookup of \<open>get_origin_branch\<close> returns: the constructor raises no
  error of its own.
\<close>

theorem diff_init_checks:
  "(is_default B \<longrightarrow>
      (\<exists>e. Diff_init gb now B bo None dt = Inl e)
      \<and> (\<exists>e. DiffQuery_init now B None dt = Inl e))
   \<and> (spec_resolved_diff_from B df = Some f \<and> Timestamp now dt < f \<longrightarrow>
      (\<exists>e. Diff_init gb now B bo df dt = Inl e)
      \<and> (\<exists>e. DiffQuery_init now B df dt = Inl e))
   \<and> (\<not> is_default B \<longrightarrow> spec_resolved_diff_from B None = Some (branched_from B))
   \<and> (spec_resolved_diff_from B df = Some f \<and> f \<le> Timestamp now dt \<longrightarrow>
      (\<exists>q. DiffQuery_init now B df dt = Inr q \<and> query_diff_from q = f
            \<and> query_diff_to q = Timestamp now dt)
      \<and> Diff_init gb now B bo df dt =
          (case gb (origin_branch B) of
             Inl e \<Rightarrow> Inl e
           | Inr ob \<Rightarrow> Inr \<lparr>branch = B, diff_origin_branch = ob, branch_only = bo,
                            diff_from = f, diff_to = Timestamp now dt, results = [],
                            calculated_diff_nodes_at = None,
                            calculated_diff_rels_at = None\<rparr>))"
  using Diff_init_mandatory DiffQuery_init_mandatory Diff_init_order DiffQuery_init_order
    DiffQuery_init_ok Diff_init_ok
  by (simp add: spec_resolved_diff_from_def)

theorem diff_init_checks_witness:
  "is_default main_branch
   \<and> (\<exists>e. Diff_init registry_get_branch 20 main_branch False None None = Inl e)
   \<and> (\<exists>e. DiffQuery_init 20 main_branch None None = Inl e)
   \<and> spec_resolved_diff_from branch2 (Some 30) = Some 30 \<and> Timestamp 20 None < 30
   \<and> (\<exists>e. Diff_init registry_get_branch 20 branch2 False (Some 30) None = Inl e)
   \<and> (\<exists>e. DiffQuery_init 20 branch2 (Some 30) None = Inl e)
   \<and> \<not> is_default branch2
   \<and> spec_resolved_diff_from branch2 None = Some 10 \<and> 10 \<le> Timestamp 20 None
   \<and> Diff_init registry_get_branch 20 branch2 False None None
       = Inr \<lparr>branch = branch2, diff_origin_branch = main_branch, branch_only = False,
              diff_from = 10, diff_to = 20, results = [],
              calculated_diff_nodes_at = None, calculated_diff_rels_at = None\<rparr>"
proof -
  have a: "is_default main_branch" "\<not> is_default branch2"
    by (simp_all add: main_branch_def branch2_def)
  have b: "spec_resolved_diff_from branch2 (Some 30) = Some 30" "Timestamp 20 None < 30"
    "spec_resolved_diff_from branch2 None = Some 10" "10 \<le> Timestamp 20 None"
    by (simp_all add: spec_resolved_diff_from_def branch2_def Timestamp_def)
  have c: "registry_get_branch (origin_branch branch2) = Inr main_branch"
    by (simp add: registry_get_branch_def branch2_def)
  note t1 = diff_init_checks [where B = main_branch and df = None and f = 0 and now = 20
      and dt = None and gb = registry_get_branch and bo = False]
  note t2 = diff_init_checks [where B = branch2 and df = "Some 30" and f = 30 and now = 20
      and dt = None and gb = registry_get_branch and bo = False]
  note t3 = diff_init_checks [where B = branch2 and df = None and f = 10 and now = 20
      and dt = None and gb = registry_get_branch and bo = False]
  from t1 a have p1: "(\<exists>e. Diff_init registry_get_branch 20 main_branch False None None = Inl e)
      \<and> (\<exists>e. DiffQuery_init 20 main_branch None None = Inl e)"
    by blast
  from t2 b have p2: "(\<exists>e. Diff_init registry_get_branch 20 branch2 False (Some 30) None = Inl e)
      \<and> (\<exists>e. DiffQuery_init 20 branch2 (Some 30) None = Inl e)"
    by blast
  from t3 b c have p3: "Diff_init registry_get_branch 20 branch2 False None None
       = Inr \<lparr>branch = branch2, diff_origin_branch = main_branch, branch_only = False,
              diff_from = 10, diff_to = 20, results = [],
              calculated_diff_nodes_at = None, calculated_diff_rels_at = None\<rparr>"
    by (simp add: Timestamp_def)
  from a b p1 p2 p3 show ?thesis by blast
qed

section \<open>Properties of \<open>DiffRelationshipQuery.get_results\<close>\<close>

lemma fold_rel_results_step:
  "fold rel_results_step xs (A, P) =
     (fold (\<lambda>(i, r) A. defaultdict_append A (rel_attr_key r) (i, rr_branch_score r))
        (kept xs P) A,
      P @ map (\<lambda>(i, r). set (rr_element_ids r)) (kept xs P))"
  by (induction xs arbitrary: A P) (auto simp: rel_results_step_def Let_def)

lemma defaultdict_append_map_fst:
  "map fst (defaultdict_append d k v) =
     (if k \<in> fst ` set d then map fst d else map fst d @ [k])"
  by (induction d) (force simp: image_iff)+

lemma defaultdict_append_keys:
  "fst ` set (defaultdict_append d k v) = insert k (fst ` set d)"
proof -
  have "set (map fst (defaultdict_append d k v)) = insert k (set (map fst d))"
    unfolding defaultdict_append_map_fst by auto
  then show ?thesis by simp
qed

lemma defaultdict_append_distinct:
  "distinct (map fst d) \<Longrightarrow> distinct (map fst (defaultdict_append d k v))"
  by (simp add: defaultdict_append_map_fst)

lemma defaultdict_append_map_of:
  "map_of (defaultdict_append d k' v) k =
     (if k = k' then Some ((case map_of d k of None \<Rightarrow> [] | Some vs \<Rightarrow> vs) @ [v])
      else map_of d k)"
  by (induction d) auto

lemma fold_defaultdict_append_keys:
  "fst ` set (fold (\<lambda>(i, r) A. defaultdict_append A (f r) (g i r)) ys A) =
     fst ` set A \<union> (\<lambda>(i, r). f r) ` set ys"
proof (induction ys arbitrary: A)
  case Nil
  then show ?case by simp
next
  case (Cons y ys)
  obtain i r where y: "y = (i, r)" by (cases y)
  show ?case
    unfolding y by (simp add: Cons.IH defaultdict_append_keys)
qed

lemma fold_defaultdict_append_distinct:
  "distinct (map fst A) \<Longrightarrow>
   distinct (map fst (fold (\<lambda>(i, r) A. defaultdict_append A (f r) (g i r)) ys A))"
  by (induction ys arbitrary: A) (auto simp: defaultdict_append_distinct)

lemma fold_defaultdict_append_values:
  "(case map_of (fold (\<lambda>(i, r) A. defaultdict_append A (f r) (g i r)) ys A) k of
      None \<Rightarrow> [] | Some vs \<Rightarrow> vs) =
   (case map_of A k of None \<Rightarrow> [] | Some vs \<Rightarrow> vs)
     @ map (\<lambda>(i, r). g i r) (filter (\<lambda>(i, r). f r = k) ys)"
  by (induction ys arbitrary: A) (auto simp: defaultdict_append_map_of)

lemma hd_sort_key_least:
  assumes "vs \<noteq> []"
  shows "hd (sort_key f vs) \<in> set vs \<and> (\<forall>y \<in> set vs. f (hd (sort_key f vs)) \<le> f y)"
proof -
  have ne: "sort_key f vs \<noteq> []"
    using assms by (metis length_0_conv length_sort)
  then obtain x xs where xs: "sort_key f vs = x # xs"
    by (cases "sort_key f vs") auto
  have "sorted (map f (x # xs))"
    using sorted_sort_key [of f vs] by (simp add: xs)
  then have le: "\<forall>y \<in> set (x # xs). f x \<le> f y"
    by auto
  have eq: "set (x # xs) = set vs"
    using set_sort [of f vs] by (simp add: xs)
  have "x \<in> set vs"
    using eq by auto
  moreover have "\<forall>y \<in> set vs. f x \<le> f y"
    using le unfolding eq .
  ultimately show ?thesis
    by (simp add: xs)
qed

lemma kept_iff:
  "x \<in> set (kept xs P) \<longleftrightarrow>
     (\<exists>m < length xs. xs ! m = x \<and> set (rr_element_ids (snd x)) \<notin> set P
        \<and> (\<forall>j < m. set (rr_element_ids (snd (xs ! j))) \<noteq> set (rr_element_ids (snd x))))"
proof (induction xs arbitrary: P)
  case Nil
  then show ?case by simp
next
  case (Cons y xs)
  obtain i r where y: "y = (i, r)" by (cases y)
  show ?case
    unfolding y
    by (auto simp: Cons.IH Ex_less_Suc2 All_less_Suc2)
qed

lemma kept_enumerate:
  "(i, r) \<in> set (kept (enumerate_list rs) []) \<longleftrightarrow> first_with_ids rs i \<and> r = rs ! i"
  by (auto simp: kept_iff enumerate_list_def first_with_ids_def)
lemma get_results_unfold:
  "get_results rs =
     map (\<lambda>(attr_key, values). rs ! fst (highest_branch_score values))
       (fold (\<lambda>(i, r) A. defaultdict_append A (rel_attr_key r) (i, rr_branch_score r))
          (kept (enumerate_list rs) []) [])"
  by (cases "rs = []")
     (simp_all add: get_results_def fold_rel_results_step enumerate_list_def)

lemma attrs_info_entry:
  assumes "(k, vs) \<in> set (fold (\<lambda>(i, r) A.
              defaultdict_append A (rel_attr_key r) (i, rr_branch_score r))
            (kept (enumerate_list rs) []) [])"
  shows "vs = map (\<lambda>(i, r). (i, rr_branch_score r))
                (filter (\<lambda>(i, r). rel_attr_key r = k) (kept (enumerate_list rs) []))"
    and "vs \<noteq> []"
proof -
  let ?K = "kept (enumerate_list rs) []"
  let ?G = "fold (\<lambda>(i, r) A. defaultdict_append A (rel_attr_key r) (i, rr_branch_score r))
              ?K []"
  have "distinct (map fst ?G)"
    by (rule fold_defaultdict_append_distinct) simp
  with assms have "map_of ?G k = Some vs"
    by simp
  with fold_defaultdict_append_values
    [of rel_attr_key "\<lambda>i r. (i, rr_branch_score r)" ?K "[]" k]
  show vs: "vs = map (\<lambda>(i, r). (i, rr_branch_score r))
                (filter (\<lambda>(i, r). rel_attr_key r = k) ?K)"
    by simp
  from assms have "k \<in> fst ` set ?G"
    by force
  then have "k \<in> (\<lambda>(i, r). rel_attr_key r) ` set ?K"
    by (simp add: fold_defaultdict_append_keys)
  then obtain i r where "(i, r) \<in> set ?K" "rel_attr_key r = k"
    by auto
  then have "(i, r) \<in> set (filter (\<lambda>(i, r). rel_attr_key r = k) ?K)"
    by simp
  then show "vs \<noteq> []"
    unfolding vs by (metis empty_iff list.map_disc_iff list.set(1))
qed

lemma attrs_info_pick:
  assumes "(k, vs) \<in> set (fold (\<lambda>(i, r) A.
              defaultdict_append A (rel_attr_key r) (i, rr_branch_score r))
            (kept (enumerate_list rs) []) [])"
  shows "first_with_ids rs (fst (highest_branch_score vs))
         \<and> rel_attr_key (rs ! fst (highest_branch_score vs)) = k
         \<and> (\<forall>j. first_with_ids rs j \<and> rel_attr_key (rs ! j) = k \<longrightarrow>
               rr_branch_score (rs ! j)
                 \<le> rr_branch_score (rs ! fst (highest_branch_score vs)))"
proof -
  let ?K = "kept (enumerate_list rs) []"
  let ?h = "highest_branch_score vs"
  note vs = attrs_info_entry [OF assms]
  from hd_sort_key_least [OF vs(2), of "\<lambda>i. - snd i"]
  have h_in: "?h \<in> set vs" and h_least: "\<forall>y \<in> set vs. - snd ?h \<le> - snd y"
    by (simp_all add: highest_branch_score_def)
  from h_in obtain i r where ir: "(i, r) \<in> set ?K" "rel_attr_key r = k"
      "?h = (i, rr_branch_score r)"
    unfolding vs(1) by auto
  from ir(1) have first: "first_with_ids rs i" and r: "r = rs ! i"
    by (simp_all add: kept_enumerate)
  have "rr_branch_score (rs ! j) \<le> rr_branch_score (rs ! i)"
    if "first_with_ids rs j" "rel_attr_key (rs ! j) = k" for j
  proof -
    from that have "(j, rs ! j) \<in> set ?K"
      by (simp add: kept_enumerate)
    with that have "(j, rr_branch_score (rs ! j)) \<in> set vs"
      unfolding vs(1) by force
    with h_least show ?thesis
      by (force simp: ir(3) r)
  qed
  with first ir r show ?thesis
    by simp
qed

text \<open>
  The reduction in terms of the text that the code uses as key: one result for every
  key of a result that is the first with its set of element ids, with the highest
  branch score of its group.
\<close>

lemma get_results_one_per_attr_key:
  "distinct (map rel_attr_key (get_results rs))
   \<and> set (map rel_attr_key (get_results rs))
       = {rel_attr_key (rs ! i) | i. first_with_ids rs i}
   \<and> (\<forall>e \<in> set (get_results rs).
        \<exists>i. first_with_ids rs i \<and> e = rs ! i
          \<and> (\<forall>j. first_with_ids rs j \<and> rel_attr_key (rs ! j) = rel_attr_key e \<longrightarrow>
                rr_branch_score (rs ! j) \<le> rr_branch_score e))"
proof -
  let ?K = "kept (enumerate_list rs) []"
  let ?G = "fold (\<lambda>(i, r) A. defaultdict_append A (rel_attr_key r) (i, rr_branch_score r))
              ?K []"
  have keys: "map rel_attr_key (get_results rs) = map fst ?G"
    unfolding get_results_unfold map_map
    by (rule map_cong [OF refl]) (use attrs_info_pick in auto)
  have "distinct (map fst ?G)"
    by (rule fold_defaultdict_append_distinct) simp
  then have one: "distinct (map rel_attr_key (get_results rs))"
    by (simp add: keys)
  have "set (map fst ?G) = (\<lambda>(i, r). rel_attr_key r) ` set ?K"
    using fold_defaultdict_append_keys
      [of rel_attr_key "\<lambda>i r. (i, rr_branch_score r)" ?K "[]"]
    by simp
  also have "\<dots> = {rel_attr_key (rs ! i) | i. first_with_ids rs i}"
    using kept_enumerate [of _ _ rs] by (auto simp: image_iff)
  finally have all: "set (map rel_attr_key (get_results rs))
      = {rel_attr_key (rs ! i) | i. first_with_ids rs i}"
    by (simp add: keys)
  have best: "\<exists>i. first_with_ids rs i \<and> e = rs ! i
      \<and> (\<forall>j. first_with_ids rs j \<and> rel_attr_key (rs ! j) = rel_attr_key e \<longrightarrow>
            rr_branch_score (rs ! j) \<le> rr_branch_score e)"
    if "e \<in> set (get_results rs)" for e
  proof -
    from that obtain k vs where kv: "(k, vs) \<in> set ?G"
        "e = rs ! fst (highest_branch_score vs)"
      unfolding get_results_unfold by auto
    from attrs_info_pick [OF kv(1)] kv(2) show ?thesis
      by auto
  qed
  from one all best show ?thesis
    by blast
qed

lemma sort_pair_drop:
  assumes "sort [a, b] = sort [a', b']"
  shows "sort [drop n a, drop n b] = sort [drop n a', drop n b']"
proof -
  from assms have "(a = a' \<and> b = b') \<or> (a = b' \<and> b = a')"
    by (auto split: if_splits)
  then show ?thesis
    by auto
qed

lemma spec_rel_key_attr_key:
  assumes "spec_rel_key r = spec_rel_key r'"
  shows "rel_attr_key r = rel_attr_key r'"
proof -
  from assms have "edge_branch (rr_r1 r) = edge_branch (rr_r1 r')"
    and "vertex_name (rr_rel r) = vertex_name (rr_rel r')"
    and "sort [vertex_uuid (rr_sn r), vertex_uuid (rr_dn r)]
         = sort [vertex_uuid (rr_sn r'), vertex_uuid (rr_dn r')]"
    by (simp_all add: spec_rel_key_def)
  moreover from this(3)
  have "sort [drop 8 (vertex_uuid (rr_sn r)), drop 8 (vertex_uuid (rr_dn r))]
      = sort [drop 8 (vertex_uuid (rr_sn r')), drop 8 (vertex_uuid (rr_dn r'))]"
    by (rule sort_pair_drop)
  ultimately show ?thesis
    by (simp add: rel_attr_key_def Let_def)
qed

text \<open>
  Claim C9, as the code has it by design. A result whose set of element ids is that of
  an earlier result is dropped: this removes the same path traversed from the other
  direction. Of the results that remain, at most one is emitted for every triple of
  branch name, sorted pair of endpoint uuids and relationship name, and the emitted
  result has the highest branch score among the remaining results with its triple; every
  remaining result is matched by an emitted one whose branch score is at least as high.
  The branch name is part of the key, so results of the child branch never compete with
  results of the parent. When no two remaining results with different triples are given
  the same key text, exactly one result is emitted for every triple.
\<close>

theorem get_results_per_branch_and_path:
  "(\<forall>e \<in> set (get_results rs).
      \<exists>i. first_with_ids rs i \<and> e = rs ! i
        \<and> (\<forall>j. first_with_ids rs j \<and> spec_rel_key (rs ! j) = spec_rel_key e \<longrightarrow>
              rr_branch_score (rs ! j) \<le> rr_branch_score e))
   \<and> distinct (map spec_rel_key (get_results rs))
   \<and> (\<forall>i. first_with_ids rs i \<longrightarrow>
        (\<exists>e \<in> set (get_results rs). rr_branch_score (rs ! i) \<le> rr_branch_score e))
   \<and> ((\<forall>i j. first_with_ids rs i \<and> first_with_ids rs j
               \<and> rel_attr_key (rs ! i) = rel_attr_key (rs ! j)
             \<longrightarrow> spec_rel_key (rs ! i) = spec_rel_key (rs ! j))
      \<longrightarrow> set (map spec_rel_key (get_results rs))
            = {spec_rel_key (rs ! i) | i. first_with_ids rs i})"
proof -
  note code = get_results_one_per_attr_key [of rs]
  have dist: "distinct (map rel_attr_key (get_results rs))"
    using code by (rule conjunct1)
  have keys: "set (map rel_attr_key (get_results rs))
       = {rel_attr_key (rs ! i) | i. first_with_ids rs i}"
    using code [THEN conjunct2] by (rule conjunct1)
  have best: "\<exists>i. first_with_ids rs i \<and> e = rs ! i
          \<and> (\<forall>j. first_with_ids rs j \<and> rel_attr_key (rs ! j) = rel_attr_key e \<longrightarrow>
                rr_branch_score (rs ! j) \<le> rr_branch_score e)"
    if "e \<in> set (get_results rs)" for e
    using code [THEN conjunct2, THEN conjunct2] that by (rule bspec)
  have p1: "\<exists>i. first_with_ids rs i \<and> e = rs ! i
        \<and> (\<forall>j. first_with_ids rs j \<and> spec_rel_key (rs ! j) = spec_rel_key e \<longrightarrow>
              rr_branch_score (rs ! j) \<le> rr_branch_score e)"
    if e: "e \<in> set (get_results rs)" for e
  proof -
    from best [OF e] obtain i where i: "first_with_ids rs i" "e = rs ! i"
      and le: "\<And>j. first_with_ids rs j \<Longrightarrow> rel_attr_key (rs ! j) = rel_attr_key e \<Longrightarrow>
                rr_branch_score (rs ! j) \<le> rr_branch_score e"
      by blast
    have "rr_branch_score (rs ! j) \<le> rr_branch_score e"
      if "first_with_ids rs j" "spec_rel_key (rs ! j) = spec_rel_key e" for j
      using le [OF that(1) spec_rel_key_attr_key [OF that(2)]] .
    with i show ?thesis
      by blast
  qed
  have inj: "inj_on spec_rel_key (set (get_results rs))"
  proof (rule inj_onI)
    fix x y
    assume x: "x \<in> set (get_results rs)" and y: "y \<in> set (get_results rs)"
      and eq: "spec_rel_key x = spec_rel_key y"
    from dist have "inj_on rel_attr_key (set (get_results rs))"
      by (simp add: distinct_map)
    from inj_onD [OF this spec_rel_key_attr_key [OF eq] x y] show "x = y" .
  qed
  from dist have "distinct (get_results rs)"
    by (simp add: distinct_map)
  with inj have p2: "distinct (map spec_rel_key (get_results rs))"
    by (simp add: distinct_map)
  have rep: "\<exists>e \<in> set (get_results rs). rel_attr_key e = rel_attr_key (rs ! i)
      \<and> rr_branch_score (rs ! i) \<le> rr_branch_score e"
    if i: "first_with_ids rs i" for i
  proof -
    from i have "rel_attr_key (rs ! i) \<in> {rel_attr_key (rs ! i) | i. first_with_ids rs i}"
      by blast
    with keys have "rel_attr_key (rs ! i) \<in> set (map rel_attr_key (get_results rs))"
      by simp
    then obtain e where e: "e \<in> set (get_results rs)" "rel_attr_key e = rel_attr_key (rs ! i)"
      by auto
    from best [OF e(1)] have "\<forall>j. first_with_ids rs j \<and> rel_attr_key (rs ! j) = rel_attr_key e \<longrightarrow>
                rr_branch_score (rs ! j) \<le> rr_branch_score e"
      by blast
    with i e(2) have "rr_branch_score (rs ! i) \<le> rr_branch_score e"
      by simp
    with e show ?thesis
      by blast
  qed
  have p3: "\<exists>e \<in> set (get_results rs). rr_branch_score (rs ! i) \<le> rr_branch_score e"
    if i: "first_with_ids rs i" for i
    using rep [OF i] by blast
  have p4: "set (map spec_rel_key (get_results rs))
      = {spec_rel_key (rs ! i) | i. first_with_ids rs i}"
    if H: "\<forall>i j. first_with_ids rs i \<and> first_with_ids rs j
             \<and> rel_attr_key (rs ! i) = rel_attr_key (rs ! j)
           \<longrightarrow> spec_rel_key (rs ! i) = spec_rel_key (rs ! j)"
  proof (intro equalityI subsetI)
    fix k
    assume "k \<in> set (map spec_rel_key (get_results rs))"
    then obtain e where e: "e \<in> set (get_results rs)" "k = spec_rel_key e"
      by auto
    from best [OF e(1)] obtain i where "first_with_ids rs i" "e = rs ! i"
      by blast
    with e(2) show "k \<in> {spec_rel_key (rs ! i) | i. first_with_ids rs i}"
      by blast
  next
    fix k
    assume "k \<in> {spec_rel_key (rs ! i) | i. first_with_ids rs i}"
    then obtain i where i: "first_with_ids rs i" "k = spec_rel_key (rs ! i)"
      by blast
    from rep [OF i(1)] obtain e where e: "e \<in> set (get_results rs)"
        "rel_attr_key e = rel_attr_key (rs ! i)"
      by blast
    from best [OF e(1)] obtain i' where i': "first_with_ids rs i'" "e = rs ! i'"
      by blast
    from e(2) i'(2) have "rel_attr_key (rs ! i') = rel_attr_key (rs ! i)"
      by simp
    with H i'(1) i(1) have "spec_rel_key (rs ! i') = spec_rel_key (rs ! i)"
      by blast
    with i'(2) i(2) have "k = spec_rel_key e"
      by simp
    with e(1) show "k \<in> set (map spec_rel_key (get_results rs))"
      by simp
  qed
  show ?thesis
  proof (intro conjI ballI allI impI)
    fix e assume "e \<in> set (get_results rs)"
    then show "\<exists>i. first_with_ids rs i \<and> e = rs ! i
        \<and> (\<forall>j. first_with_ids rs j \<and> spec_rel_key (rs ! j) = spec_rel_key e \<longrightarrow>
              rr_branch_score (rs ! j) \<le> rr_branch_score e)"
      by (rule p1)
  next
    show "distinct (map spec_rel_key (get_results rs))"
      by (rule p2)
  next
    fix i assume "first_with_ids rs i"
    then show "\<exists>e \<in> set (get_results rs). rr_branch_score (rs ! i) \<le> rr_branch_score e"
      by (rule p3)
  next
    assume "\<forall>i j. first_with_ids rs i \<and> first_with_ids rs j
               \<and> rel_attr_key (rs ! i) = rel_attr_key (rs ! j)
             \<longrightarrow> spec_rel_key (rs ! i) = spec_rel_key (rs ! j)"
    then show "set (map spec_rel_key (get_results rs))
            = {spec_rel_key (rs ! i) | i. first_with_ids rs i}"
      by (rule p4)
  qed
qed

theorem get_results_per_branch_and_path_witness:
  "get_results example_rel_results = [example_rel_results ! 0, example_rel_results ! 2]
   \<and> first_with_ids example_rel_results 0
   \<and> \<not> first_with_ids example_rel_results 1
   \<and> first_with_ids example_rel_results 2
   \<and> distinct (map spec_rel_key (get_results example_rel_results))
   \<and> set (map spec_rel_key (get_results example_rel_results))
       = {spec_rel_key (example_rel_results ! i) | i. first_with_ids example_rel_results i}
   \<and> (\<exists>e \<in> set (get_results example_rel_results).
         rr_branch_score (example_rel_results ! 2) \<le> rr_branch_score e)"
proof -
  let ?rs = "example_rel_results"
  have out: "get_results ?rs = [?rs ! 0, ?rs ! 2]"
    by code_simp
  have len: "length ?rs = 3"
    by (simp add: example_rel_results_def)
  have ids: "set (rr_element_ids (?rs ! 0)) = set (rr_element_ids (?rs ! 1))"
    "set (rr_element_ids (?rs ! 0)) \<noteq> set (rr_element_ids (?rs ! 2))"
    "set (rr_element_ids (?rs ! 1)) \<noteq> set (rr_element_ids (?rs ! 2))"
    by code_simp+
  have f0: "first_with_ids ?rs 0"
    by (simp add: first_with_ids_def len)
  have f1: "\<not> first_with_ids ?rs 1"
    using ids(1) by (auto simp: first_with_ids_def)
  have f2: "first_with_ids ?rs 2"
    using ids(2,3) by (auto simp: first_with_ids_def len less_Suc_eq numeral_2_eq_2)
  have only: "i = 0 \<or> i = 2" if "first_with_ids ?rs i" for i
  proof -
    from that have "i < 3"
      by (simp add: first_with_ids_def len)
    then have "i = 0 \<or> i = 1 \<or> i = 2"
      by auto
    with that f1 show ?thesis
      by blast
  qed
  have key: "rel_attr_key (?rs ! 0) \<noteq> rel_attr_key (?rs ! 2)"
    by code_simp
  have H: "\<forall>i j. first_with_ids ?rs i \<and> first_with_ids ?rs j
             \<and> rel_attr_key (?rs ! i) = rel_attr_key (?rs ! j)
           \<longrightarrow> spec_rel_key (?rs ! i) = spec_rel_key (?rs ! j)"
    using only key by metis
  from get_results_per_branch_and_path [of ?rs] H f2
  have "distinct (map spec_rel_key (get_results ?rs))
      \<and> set (map spec_rel_key (get_results ?rs))
          = {spec_rel_key (?rs ! i) | i. first_with_ids ?rs i}
      \<and> (\<exists>e \<in> set (get_results ?rs).
            rr_branch_score (?rs ! 2) \<le> rr_branch_score e)"
    by blast
  with out f0 f1 f2 show ?thesis
    by blast
qed

text \<open>
  Claim C9 as it is stated fails: the same pair of endpoints and the same relationship
  name seen on the parent branch and on the child branch give two keys, since the key
  contains the branch name. Both results are emitted, and the result of the child, whose
  branch score is the higher one, does not replace the result of the parent.
\<close>

theorem get_results_both_branches_counterexample:
  "get_results
     [example_rel_result ''main'' person1_uuid car1_uuid [''1'', ''2'', ''3''] 1,
      example_rel_result ''branch2'' person1_uuid car1_uuid [''1'', ''2'', ''4''] 2]
   = [example_rel_result ''main'' person1_uuid car1_uuid [''1'', ''2'', ''3''] 1,
      example_rel_result ''branch2'' person1_uuid car1_uuid [''1'', ''2'', ''4''] 2]
   \<and> rr_branch_score
        (example_rel_result ''main'' person1_uuid car1_uuid [''1'', ''2'', ''3''] 1)
     < rr_branch_score
        (example_rel_result ''branch2'' person1_uuid car1_uuid [''1'', ''2'', ''4''] 2)"
  by code_simp

text \<open>
  A defect of the key. The source calls it a unique key (the comment above its
  construction), and \<open>get_results_group_by_branch_attribute\<close> of the attribute query
  keys on the whole uuid of the node; here the first eight characters of both uuids
  are cut off. Two distinct paths of one branch between distinct pairs of endpoints
  whose uuids agree from the ninth character on get the same key, and the change of one
  of them is lost.
\<close>

lemma get_results_truncated_uuid:
  "get_results
     [example_rel_result ''branch2'' person1_uuid car1_uuid [''1'', ''2'', ''3''] 2,
      example_rel_result ''branch2'' person2_uuid car2_uuid [''5'', ''6'', ''7''] 3]
   = [example_rel_result ''branch2'' person2_uuid car2_uuid [''5'', ''6'', ''7''] 3]
   \<and> spec_rel_key
        (example_rel_result ''branch2'' person1_uuid car1_uuid [''1'', ''2'', ''3''] 2)
     \<noteq> spec_rel_key
        (example_rel_result ''branch2'' person2_uuid car2_uuid [''5'', ''6'', ''7''] 3)
   \<and> set [''1'', ''2'', ''3''] \<noteq> set [''5'', ''6'', ''7'']"
  by code_simp

section \<open>Properties of the modified paths and of the conflicts\<close>

lemma defaultdict_add_get:
  "defaultdict_get {} (defaultdict_add d k v) c =
     (if c = k then insert v (defaultdict_get {} d k) else defaultdict_get {} d c)"
  by (induction d) (auto simp: defaultdict_get_def)

lemma defaultdict_add_map_fst:
  "map fst (defaultdict_add d k v) =
     (if k \<in> fst ` set d then map fst d else map fst d @ [k])"
  by (induction d) (force simp: image_iff)+

lemma defaultdict_add_keys:
  "fst ` set (defaultdict_add d k v) = insert k (fst ` set d)"
proof -
  have "set (map fst (defaultdict_add d k v)) = insert k (set (map fst d))"
    unfolding defaultdict_add_map_fst by auto
  then show ?thesis by simp
qed

lemma defaultdict_add_distinct:
  "distinct (map fst d) \<Longrightarrow> distinct (map fst (defaultdict_add d k v))"
  by (simp add: defaultdict_add_map_fst)

lemma props_fold_get:
  "defaultdict_get {} (fold (\<lambda>(k, x) paths. defaultdict_add paths bn (g k)) ps paths) b =
     defaultdict_get {} paths b \<union> (if b = bn then g ` fst ` set ps else {})"
  by (induction ps arbitrary: paths) (auto simp: defaultdict_add_get)

lemma attrs_fold_get:
  "defaultdict_get {}
     (fold (\<lambda>(k, x) paths.
        fold (\<lambda>(k', x') paths. defaultdict_add paths bn (g k k')) (h x) paths) xs paths) b =
   defaultdict_get {} paths b \<union>
     (if b = bn then (\<Union>(k, x) \<in> set xs. g k ` fst ` set (h x)) else {})"
proof (induction xs arbitrary: paths)
  case Nil
  then show ?case by simp
next
  case (Cons y ys)
  obtain k x where y: "y = (k, x)" by (cases y)
  show ?case
    unfolding y by (simp add: Cons.IH props_fold_get Un_assoc)
qed

lemma nodes_fold_get:
  "defaultdict_get {}
     (fold (\<lambda>(k, x) paths.
        fold (\<lambda>(k', x') paths.
          fold (\<lambda>(k'', x'') paths. defaultdict_add paths bn (g k k' k'')) (h' x') paths)
          (h x) paths) xs paths) b =
   defaultdict_get {} paths b \<union>
     (if b = bn
      then (\<Union>(k, x) \<in> set xs. \<Union>(k', x') \<in> set (h x). g k k' ` fst ` set (h' x'))
      else {})"
proof (induction xs arbitrary: paths)
  case Nil
  then show ?case by simp
next
  case (Cons y ys)
  obtain k x where y: "y = (k, x)" by (cases y)
  show ?case
    unfolding y by (simp add: Cons.IH attrs_fold_get Un_assoc)
qed

lemma changed_node_properties_Nil: "changed_node_properties [] b = {}"
  by (simp add: changed_node_properties_def)

lemma changed_node_properties_Cons:
  "f ` changed_node_properties ((bn, data) # N) b =
     (if b = bn
      then (\<Union>(k, x) \<in> set data. \<Union>(k', x') \<in> set (node_attributes x).
              (\<lambda>k''. f (k, k', k'')) ` fst ` set (attr_properties x'))
      else {})
     \<union> f ` changed_node_properties N b"
  unfolding changed_node_properties_def
  by (auto simp: image_iff) (force+)

lemma node_paths_get:
  "defaultdict_get {} (node_paths d N paths) b =
     defaultdict_get {} paths b \<union>
     (if branch_only d \<and> b \<noteq> name (branch d) then {}
      else (\<lambda>(node_id_v, attr_name_v, prop_type_v).
              (''node'', node_id_v, attr_name_v, prop_type_v)) ` changed_node_properties N b)"
proof (induction N arbitrary: paths)
  case Nil
  then show ?case by (simp add: node_paths_def changed_node_properties_Nil)
next
  case (Cons y ys)
  obtain bn data where y: "y = (bn, data)" by (cases y)
  have step: "node_paths d (y # ys) paths =
      node_paths d ys
        (if branch_only d \<and> bn \<noteq> name (branch d) then paths
         else fold (\<lambda>(node_id_v, node) paths.
            fold (\<lambda>(attr_name_v, attr) paths.
              fold (\<lambda>(prop_type_v, prop) paths.
                  defaultdict_add paths bn (''node'', node_id_v, attr_name_v, prop_type_v))
                (attr_properties attr) paths)
              (node_attributes node) paths)
            data paths)"
    by (simp add: node_paths_def y)
  show ?case
    apply (subst step)
    apply (subst Cons.IH)
    apply (simp add: y nodes_fold_get [where g = "\<lambda>a b c. (''node'', a, b, c)"]
        changed_node_properties_Cons Un_assoc)
    done
qed

lemma changed_rel_properties_Nil: "changed_rel_properties [] b = {}"
  by (simp add: changed_rel_properties_def)

lemma changed_rel_properties_Cons:
  "f ` changed_rel_properties ((bn, data) # R) b =
     (if b = bn
      then (\<Union>(k, x) \<in> set data. \<Union>(k', x') \<in> set x.
              (\<lambda>k''. f (k, k', k'')) ` fst ` set (rel_properties x'))
      else {})
     \<union> f ` changed_rel_properties R b"
  unfolding changed_rel_properties_def
  by (auto simp: image_iff) (force+)

lemma rel_paths_get:
  "defaultdict_get {} (rel_paths d R paths) b =
     defaultdict_get {} paths b \<union>
     (if branch_only d \<and> b \<noteq> name (branch d) then {}
      else (\<lambda>(rel_name_v, rel_id_v, prop_type_v).
              (''relationships'', rel_name_v, rel_id_v, prop_type_v))
             ` changed_rel_properties R b)"
proof (induction R arbitrary: paths)
  case Nil
  then show ?case by (simp add: rel_paths_def changed_rel_properties_Nil)
next
  case (Cons y ys)
  obtain bn data where y: "y = (bn, data)" by (cases y)
  have step: "rel_paths d (y # ys) paths =
      rel_paths d ys
        (if branch_only d \<and> bn \<noteq> name (branch d) then paths
         else fold (\<lambda>(rel_name_v, rels_v) paths.
            fold (\<lambda>(rel_id_v, rel) paths.
              fold (\<lambda>(prop_type_v, prop) paths.
                  defaultdict_add paths bn
                    (''relationships'', rel_name_v, rel_id_v, prop_type_v))
                (rel_properties rel) paths)
              rels_v paths)
            data paths)"
    by (simp add: rel_paths_def y)
  show ?case
    apply (subst step)
    apply (subst Cons.IH)
    apply (simp add: y nodes_fold_get [where g = "\<lambda>a b c. (''relationships'', a, b, c)"
          and h = "\<lambda>x. x"] changed_rel_properties_Cons Un_assoc)
    done
qed

lemma defaultdict_add_wf: "paths_wf P \<Longrightarrow> paths_wf (defaultdict_add P k v)"
proof -
  have "\<forall>(k', vs) \<in> set (defaultdict_add P k v). vs \<noteq> {}"
    if "\<forall>(k', vs) \<in> set P. vs \<noteq> {}"
    using that by (induction P) (auto split: if_splits)
  then show "paths_wf P \<Longrightarrow> paths_wf (defaultdict_add P k v)"
    by (simp add: paths_wf_def defaultdict_add_distinct)
qed

lemma fold_preserves:
  assumes "\<And>k x s. I s \<Longrightarrow> I (F k x s)" and "I s"
  shows "I (fold (\<lambda>(k, x). F k x) xs s)"
  using assms(2)
proof (induction xs arbitrary: s)
  case Nil
  then show ?case by simp
next
  case (Cons y ys)
  obtain k x where y: "y = (k, x)" by (cases y)
  show ?case
    by (simp add: y Cons.IH assms(1) Cons.prems)
qed

lemma node_paths_wf: "paths_wf paths \<Longrightarrow> paths_wf (node_paths d N paths)"
  unfolding node_paths_def
  by (rule fold_preserves [where I = paths_wf], simp,
      intro impI fold_preserves [where I = paths_wf] defaultdict_add_wf)

lemma rel_paths_wf: "paths_wf paths \<Longrightarrow> paths_wf (rel_paths d R paths)"
  unfolding rel_paths_def
  by (rule fold_preserves [where I = paths_wf], simp,
      intro impI fold_preserves [where I = paths_wf] defaultdict_add_wf)

lemma paths_wf_key_iff:
  assumes "paths_wf P"
  shows "b \<in> fst ` set P \<longleftrightarrow> defaultdict_get {} P b \<noteq> {}"
proof
  assume "b \<in> fst ` set P"
  then obtain vs where "map_of P b = Some vs"
    by (metis domD dom_map_of_conv_image_fst)
  moreover from this have "(b, vs) \<in> set P"
    by (rule map_of_SomeD)
  ultimately show "defaultdict_get {} P b \<noteq> {}"
    using assms by (auto simp: paths_wf_def defaultdict_get_def)
next
  assume "defaultdict_get {} P b \<noteq> {}"
  then show "b \<in> fst ` set P"
    by (force simp: defaultdict_get_def split: option.splits dest: map_of_SomeD)
qed
lemma get_modified_paths_Inr:
  "get_modified_paths db now d = Inr (P, d') \<longleftrightarrow>
     (\<exists>N d1 R. get_nodes db now d = Inr (N, d1) \<and> get_relationships db now d1 = Inr (R, d')
        \<and> P = rel_paths d R (node_paths d N []))"
  by (auto simp: get_modified_paths_def Let_def split: sum.splits)

lemma paths_wf_Nil: "paths_wf []"
  by (simp add: paths_wf_def)

lemma get_modified_paths_wf:
  "get_modified_paths db now d = Inr (P, d') \<Longrightarrow> paths_wf P"
  by (auto simp: get_modified_paths_Inr intro!: rel_paths_wf node_paths_wf paths_wf_Nil)

lemma defaultdict_get_Nil: "defaultdict_get z [] k = z"
  by (simp add: defaultdict_get_def)

lemma distinct_two:
  assumes "distinct xs" "set xs = {a, b}" "a \<noteq> b"
  shows "xs = [a, b] \<or> xs = [b, a]"
proof -
  have "length xs = card (set xs)"
    using assms(1) by (simp add: distinct_card)
  also have "\<dots> = 2"
    using assms(2,3) by simp
  finally obtain x y where xs: "xs = [x, y]"
    by (cases xs; cases "tl xs"; cases "tl (tl xs)") auto
  with assms(2,3) show ?thesis
    by (auto simp: doubleton_eq_iff)
qed

text \<open>
  Claim C5, as the code has it. For every computed change set, that is for the
  dictionaries that \<open>get_nodes\<close> and \<open>get_relationships\<close> return, and for every branch
  that \<open>branch_only\<close> does not exclude, the paths that \<open>get_modified_paths\<close> returns for
  the branch are exactly the tuples \<open>("node", node_uuid, attr_name, prop_kind)\<close> of the
  changed properties of attributes and the tuples
  \<open>("relationships", rel_name, rel_uuid, prop_kind)\<close> of the changed properties of
  relationships.
\<close>

theorem get_modified_paths_spec:
  assumes "get_nodes db now d = Inr (N, d1)"
    and "get_relationships db now d1 = Inr (R, d2)"
  shows "\<exists>P. get_modified_paths db now d = Inr (P, d2)
         \<and> (\<forall>b. \<not> (branch_only d \<and> b \<noteq> name (branch d)) \<longrightarrow>
              defaultdict_get {} P b =
                (\<lambda>(node_uuid, attr_name_v, prop_kind).
                   (''node'', node_uuid, attr_name_v, prop_kind))
                  ` changed_node_properties N b
                \<union> (\<lambda>(rel_name_v, rel_uuid, prop_kind).
                     (''relationships'', rel_name_v, rel_uuid, prop_kind))
                  ` changed_rel_properties R b)"
proof -
  have "get_modified_paths db now d = Inr (rel_paths d R (node_paths d N []), d2)"
    using assms by (simp add: get_modified_paths_Inr)
  then show ?thesis
    by (simp add: rel_paths_get node_paths_get defaultdict_get_Nil)
qed

text \<open>
  Claim C6. For a diff constructed with \<open>branch_only\<close>, the dictionary that
  \<open>get_modified_paths\<close> returns has no entry for a branch other than the branch of the
  diff, and \<open>get_conflicts\<close> returns the empty set.
\<close>

theorem branch_only_paths:
  assumes "branch_only d"
  shows "get_conflicts db now d = Inr ({}, d)
         \<and> (\<forall>P d'. get_modified_paths db now d = Inr (P, d') \<longrightarrow>
              fst ` set P \<subseteq> {name (branch d)})"
proof -
  have "b = name (branch d)"
    if P: "get_modified_paths db now d = Inr (P, d')" and b: "b \<in> fst ` set P" for P d' b
  proof -
    from P obtain N R where "P = rel_paths d R (node_paths d N [])"
      by (auto simp: get_modified_paths_Inr)
    moreover from b have "defaultdict_get {} P b \<noteq> {}"
      using paths_wf_key_iff [OF get_modified_paths_wf [OF P]] by simp
    ultimately show ?thesis
      using assms
      by (simp add: rel_paths_get node_paths_get defaultdict_get_Nil split: if_splits)
  qed
  then show ?thesis
    using assms by (auto simp: get_conflicts_def)
qed

text \<open>
  Claim C4. For a diff without \<open>branch_only\<close> whose dictionary of modified paths has
  entries for exactly the two branches \<open>B\<close> and \<open>parent\<close>, \<open>get_conflicts\<close> returns the
  intersection of the paths of \<open>B\<close> and of the paths of \<open>parent\<close>, whichever of the two
  entries comes first, so that the result is the same relative to \<open>B\<close> and relative to
  \<open>parent\<close>.
\<close>

theorem get_conflicts_intersection:
  assumes "\<not> branch_only d"
    and "get_modified_paths db now d = Inr (P, d')"
    and "fst ` set P = {B, parent}"
    and "B \<noteq> parent"
  shows "get_conflicts db now d
           = Inr (defaultdict_get {} P B \<inter> defaultdict_get {} P parent, d')
         \<and> get_conflicts db now d
           = Inr (defaultdict_get {} P parent \<inter> defaultdict_get {} P B, d')"
proof -
  have "distinct (map fst P)"
    using get_modified_paths_wf [OF assms(2)] by (simp add: paths_wf_def)
  moreover have "set (map fst P) = {B, parent}"
    using assms(3) by simp
  ultimately have "map fst P = [B, parent] \<or> map fst P = [parent, B]"
    using assms(4) by (rule distinct_two)
  then show ?thesis
    using assms(1,2) by (auto simp: get_conflicts_def Let_def Int_commute)
qed
text \<open>The modified paths of the example graph.\<close>

lemma example_get_modified_paths:
  "map_sum id fst (get_modified_paths example_db 20 (example_diff False)) =
     Inr [(''branch2'',
           {(''node'', ''aaaaaaaa-0001'', ''name'', ''HAS_VALUE''),
            (''node'', ''cccccccc-0001'', ''name'', ''HAS_VALUE''),
            (''node'', ''cccccccc-0001'', ''description'', ''HAS_VALUE''),
            (''relationships'', ''car__person'', ''99999999-0001'', ''IS_VISIBLE'')}),
          (''main'', {(''node'', ''cccccccc-0001'', ''name'', ''HAS_VALUE'')})]"
  by code_simp

lemma example_get_nodes_Inr:
  "\<exists>N d1 R d2. get_nodes example_db 20 (example_diff False) = Inr (N, d1)
     \<and> get_relationships example_db 20 d1 = Inr (R, d2)"
proof -
  have "\<not> isl (get_nodes example_db 20 (example_diff False))"
    by code_simp
  then obtain N d1 where N: "get_nodes example_db 20 (example_diff False) = Inr (N, d1)"
    by (cases "get_nodes example_db 20 (example_diff False)") auto
  have "\<not> isl (get_relationships example_db 20
      (snd (projr (get_nodes example_db 20 (example_diff False)))))"
    by code_simp
  then obtain R d2 where "get_relationships example_db 20 d1 = Inr (R, d2)"
    unfolding N by (cases "get_relationships example_db 20 d1") auto
  with N show ?thesis by blast
qed

theorem get_modified_paths_spec_witness:
  "\<exists>N d1 R d2 P.
     get_nodes example_db 20 (example_diff False) = Inr (N, d1)
     \<and> get_relationships example_db 20 d1 = Inr (R, d2)
     \<and> get_modified_paths example_db 20 (example_diff False) = Inr (P, d2)
     \<and> \<not> (branch_only (example_diff False)
           \<and> ''branch2'' \<noteq> name (branch (example_diff False)))
     \<and> defaultdict_get {} P ''branch2'' =
          {(''node'', ''aaaaaaaa-0001'', ''name'', ''HAS_VALUE''),
           (''node'', ''cccccccc-0001'', ''name'', ''HAS_VALUE''),
           (''node'', ''cccccccc-0001'', ''description'', ''HAS_VALUE''),
           (''relationships'', ''car__person'', ''99999999-0001'', ''IS_VISIBLE'')}
     \<and> defaultdict_get {} P ''branch2'' =
          (\<lambda>(node_uuid, attr_name_v, prop_kind).
             (''node'', node_uuid, attr_name_v, prop_kind))
            ` changed_node_properties N ''branch2''
          \<union> (\<lambda>(rel_name_v, rel_uuid, prop_kind).
               (''relationships'', rel_name_v, rel_uuid, prop_kind))
            ` changed_rel_properties R ''branch2''"
proof -
  from example_get_nodes_Inr obtain N d1 R d2
    where N: "get_nodes example_db 20 (example_diff False) = Inr (N, d1)"
      and R: "get_relationships example_db 20 d1 = Inr (R, d2)"
    by blast
  from get_modified_paths_spec [OF N R] obtain P
    where P: "get_modified_paths example_db 20 (example_diff False) = Inr (P, d2)"
      and spec: "\<forall>b. \<not> (branch_only (example_diff False)
                          \<and> b \<noteq> name (branch (example_diff False))) \<longrightarrow>
              defaultdict_get {} P b =
                (\<lambda>(node_uuid, attr_name_v, prop_kind).
                   (''node'', node_uuid, attr_name_v, prop_kind))
                  ` changed_node_properties N b
                \<union> (\<lambda>(rel_name_v, rel_uuid, prop_kind).
                     (''relationships'', rel_name_v, rel_uuid, prop_kind))
                  ` changed_rel_properties R b"
    by blast
  have only: "\<not> (branch_only (example_diff False)
      \<and> ''branch2'' \<noteq> name (branch (example_diff False)))"
    by (simp add: example_diff_def)
  from example_get_modified_paths have "P =
     [(''branch2'',
       {(''node'', ''aaaaaaaa-0001'', ''name'', ''HAS_VALUE''),
        (''node'', ''cccccccc-0001'', ''name'', ''HAS_VALUE''),
        (''node'', ''cccccccc-0001'', ''description'', ''HAS_VALUE''),
        (''relationships'', ''car__person'', ''99999999-0001'', ''IS_VISIBLE'')}),
      (''main'', {(''node'', ''cccccccc-0001'', ''name'', ''HAS_VALUE'')})]"
    by (simp add: P)
  then have val: "defaultdict_get {} P ''branch2'' =
      {(''node'', ''aaaaaaaa-0001'', ''name'', ''HAS_VALUE''),
       (''node'', ''cccccccc-0001'', ''name'', ''HAS_VALUE''),
       (''node'', ''cccccccc-0001'', ''description'', ''HAS_VALUE''),
       (''relationships'', ''car__person'', ''99999999-0001'', ''IS_VISIBLE'')}"
    by (simp add: defaultdict_get_def)
  from spec only have "defaultdict_get {} P ''branch2'' =
          (\<lambda>(node_uuid, attr_name_v, prop_kind).
             (''node'', node_uuid, attr_name_v, prop_kind))
            ` changed_node_properties N ''branch2''
          \<union> (\<lambda>(rel_name_v, rel_uuid, prop_kind).
               (''relationships'', rel_name_v, rel_uuid, prop_kind))
            ` changed_rel_properties R ''branch2''"
    by blast
  with N R P only val show ?thesis
    by blast
qed

text \<open>
  Claim C5 as it is stated fails: the path of a changed property of a relationship
  starts with the string \<open>relationships\<close>, which is neither \<open>node\<close> nor \<open>rel\<close>.
\<close>

theorem get_modified_paths_rel_counterexample:
  "(''relationships'', ''car__person'', ''99999999-0001'', ''IS_VISIBLE'')
     \<in> defaultdict_get {}
         (fst (projr (get_modified_paths example_db 20 (example_diff False)))) ''branch2''
   \<and> (''rel'', ''car__person'', ''99999999-0001'', ''IS_VISIBLE'')
     \<notin> defaultdict_get {}
         (fst (projr (get_modified_paths example_db 20 (example_diff False)))) ''branch2''
   \<and> ''relationships'' \<noteq> ''rel'' \<and> ''relationships'' \<noteq> ''node''"
  by code_simp

theorem branch_only_paths_witness:
  "branch_only (example_diff True)
   \<and> get_conflicts example_db 20 (example_diff True) = Inr ({}, example_diff True)
   \<and> map_sum id (\<lambda>r. map fst (fst r))
        (get_modified_paths example_db 20 (example_diff True)) = Inr [''branch2'']
   \<and> map fst (results (snd (projr (get_modified_paths example_db 20 (example_diff True)))))
       = [''branch2'', ''main'']"
proof -
  have only: "branch_only (example_diff True)"
    by (simp add: example_diff_def)
  have paths: "map_sum id (\<lambda>r. map fst (fst r))
        (get_modified_paths example_db 20 (example_diff True)) = Inr [''branch2'']"
    by code_simp
  have res: "map fst (results (snd (projr
        (get_modified_paths example_db 20 (example_diff True))))) = [''branch2'', ''main'']"
    by code_simp
  from branch_only_paths [OF only, of example_db 20] only paths res
  show ?thesis by blast
qed

theorem get_conflicts_intersection_witness:
  "\<exists>P d'. \<not> branch_only (example_diff False)
     \<and> get_modified_paths example_db 20 (example_diff False) = Inr (P, d')
     \<and> fst ` set P = {''branch2'', ''main''} \<and> ''branch2'' \<noteq> ''main''
     \<and> get_conflicts example_db 20 (example_diff False)
         = Inr ({(''node'', ''cccccccc-0001'', ''name'', ''HAS_VALUE'')}, d')"
proof -
  have only: "\<not> branch_only (example_diff False)"
    by (simp add: example_diff_def)
  have "\<not> isl (get_modified_paths example_db 20 (example_diff False))"
    by code_simp
  then obtain P d'
    where P: "get_modified_paths example_db 20 (example_diff False) = Inr (P, d')"
    by (cases "get_modified_paths example_db 20 (example_diff False)") auto
  from example_get_modified_paths have val: "P =
     [(''branch2'',
       {(''node'', ''aaaaaaaa-0001'', ''name'', ''HAS_VALUE''),
        (''node'', ''cccccccc-0001'', ''name'', ''HAS_VALUE''),
        (''node'', ''cccccccc-0001'', ''description'', ''HAS_VALUE''),
        (''relationships'', ''car__person'', ''99999999-0001'', ''IS_VISIBLE'')}),
      (''main'', {(''node'', ''cccccccc-0001'', ''name'', ''HAS_VALUE'')})]"
    by (simp add: P)
  then have keys: "fst ` set P = {''branch2'', ''main''}"
    by simp
  have ne: "''branch2'' \<noteq> ''main''"
    by simp
  from get_conflicts_intersection [OF only P keys ne]
  have "get_conflicts example_db 20 (example_diff False)
         = Inr (defaultdict_get {} P ''branch2'' \<inter> defaultdict_get {} P ''main'', d')"
    by blast
  moreover have "defaultdict_get {} P ''branch2'' \<inter> defaultdict_get {} P ''main''
      = {(''node'', ''cccccccc-0001'', ''name'', ''HAS_VALUE'')}"
    unfolding val by (auto simp: defaultdict_get_def)
  ultimately show ?thesis
    using only P keys ne by auto
qed

section \<open>Properties of the classification of attributes\<close>

lemma map_of_dict_set: "map_of (dict_set d k v) = (map_of d)(k \<mapsto> v)"
  by (induction d) (auto simp: fun_eq_iff)

lemma in_keys_iff: "k \<in> fst ` set d \<longleftrightarrow> map_of d k \<noteq> None"
  by (simp add: map_of_eq_None_iff)

lemma map_of_defaultdict_touch:
  "map_of (defaultdict_touch z d k) k' =
     (if k' = k \<and> map_of d k = None then Some z else map_of d k')"
  by (auto simp: defaultdict_touch_def in_keys_iff map_add_def split: option.splits)

lemma results_nodes_touch:
  "results_nodes (defaultdict_touch empty_branch_results res b) b' = results_nodes res b'"
  by (auto simp: results_nodes_def defaultdict_get_def map_of_defaultdict_touch
      empty_branch_results_def split: option.splits)

lemma results_nodes_set_node:
  "results_nodes (results_set_node res b n v) b' =
     (if b' = b then dict_set (results_nodes res b) n v else results_nodes res b')"
  by (simp add: results_nodes_def results_set_node_def defaultdict_get_def map_of_dict_set
      Let_def)

lemma diff_nodes_step_example:
  "diff_nodes_step (example_diff False) (example_node_results ! 0) []
     = Inr example_added_node_results"
  by code_simp

text \<open>
  Claim C7. When the second loop of the node diff processes an attribute, that is when
  the attribute is not yet in the change set and its edge does not end before
  \<open>diff_to\<close>, the attribute is entered with the action ADDED when the action of its node
  is ADDED, the \<open>from\<close> of its edge is at least \<open>diff_from\<close> and the status of the edge is
  ACTIVE; with the action REMOVED when the \<open>from\<close> of its edge is at least \<open>diff_from\<close>
  and the status is DELETED; and with the action UPDATED and without \<open>changed_at\<close> in
  every other case. The action of the node is the one it has in the change set that the
  iteration receives, and the iteration leaves it as it is.
\<close>

theorem diff_attrs_step_action:
  assumes "results_attr res0 (edge_branch (ar_r2 result)) (vertex_uuid (ar_n result))
             (vertex_name (ar_a result)) = None"
    and "\<not> (case edge_to (ar_r1 result) of None \<Rightarrow> False | Some t \<Rightarrow> t < diff_to self)"
    and "diff_attrs_step self result (res0, query_nodes, query_fields) = (res, qn, qf)"
  shows "\<exists>node attr.
     results_node res (edge_branch (ar_r2 result)) (vertex_uuid (ar_n result)) = Some node
     \<and> node_action node
         = owner_action res0 (edge_branch (ar_r2 result)) (vertex_uuid (ar_n result))
     \<and> results_attr res (edge_branch (ar_r2 result)) (vertex_uuid (ar_n result))
          (vertex_name (ar_a result)) = Some attr
     \<and> (owner_action res0 (edge_branch (ar_r2 result)) (vertex_uuid (ar_n result)) = ADDED
          \<and> edge_from (ar_r1 result) \<ge> diff_from self
          \<and> edge_status (ar_r1 result) = RelationshipStatus_ACTIVE
        \<longrightarrow> attr_action attr = ADDED
            \<and> attr_changed_at attr = Some (edge_from (ar_r1 result)))
     \<and> (edge_from (ar_r1 result) \<ge> diff_from self
          \<and> edge_status (ar_r1 result) = RelationshipStatus_DELETED
        \<longrightarrow> attr_action attr = REMOVED
            \<and> attr_changed_at attr = Some (edge_from (ar_r1 result)))
     \<and> (\<not> (owner_action res0 (edge_branch (ar_r2 result)) (vertex_uuid (ar_n result))
               = ADDED
             \<and> edge_from (ar_r1 result) \<ge> diff_from self
             \<and> edge_status (ar_r1 result) = RelationshipStatus_ACTIVE)
          \<and> \<not> (edge_from (ar_r1 result) \<ge> diff_from self
             \<and> edge_status (ar_r1 result) = RelationshipStatus_DELETED)
        \<longrightarrow> attr_action attr = UPDATED \<and> attr_changed_at attr = None)"
  using assms
  by (auto simp: diff_attrs_step_def Let_def results_attr_def results_node_def
      owner_action_def results_nodes_touch results_nodes_set_node map_of_dict_set
      in_keys_iff RelationshipStatus_ACTIVE_def RelationshipStatus_DELETED_def
      split: option.splits if_splits)

theorem diff_attrs_step_action_witness:
  "owner_action example_added_node_results ''branch2'' ''aaaaaaaa-0001'' = ADDED
   \<and> map_option node_action
     (results_node
        (fst (diff_attrs_step (example_diff False) (example_attr_results ! 3)
                (example_added_node_results, {}, {})))
        ''branch2'' ''aaaaaaaa-0001'') = Some ADDED
   \<and> map_option attr_action
     (results_attr
        (fst (diff_attrs_step (example_diff False) (example_attr_results ! 3)
                (example_added_node_results, {}, {})))
        ''branch2'' ''aaaaaaaa-0001'' ''name'') = Some ADDED
   \<and> map_option attr_action
     (results_attr
        (fst (diff_attrs_step (example_diff False) example_removed_attr_result ([], {}, {})))
        ''branch2'' ''cccccccc-0001'' ''color'') = Some REMOVED
   \<and> map_option (\<lambda>a. (attr_action a, attr_changed_at a))
     (results_attr
        (fst (diff_attrs_step (example_diff False) (example_attr_results ! 0) ([], {}, {})))
        ''branch2'' ''cccccccc-0001'' ''name'') = Some (UPDATED, None)"
proof -
  let ?s = "example_diff False"
  let ?r1 = "example_attr_results ! 3"
  let ?X1 = "diff_attrs_step ?s ?r1 (example_added_node_results, {}, {})"
  have a1: "results_attr example_added_node_results (edge_branch (ar_r2 ?r1))
      (vertex_uuid (ar_n ?r1)) (vertex_name (ar_a ?r1)) = None"
    by code_simp
  have a2: "\<not> (case edge_to (ar_r1 ?r1) of None \<Rightarrow> False | Some t \<Rightarrow> t < diff_to ?s)"
    by code_simp
  have a3: "?X1 = (fst ?X1, fst (snd ?X1), snd (snd ?X1))"
    by simp
  have a4: "edge_branch (ar_r2 ?r1) = ''branch2''"
    by code_simp
  have a5: "vertex_uuid (ar_n ?r1) = ''aaaaaaaa-0001''"
    by code_simp
  have a6: "vertex_name (ar_a ?r1) = ''name''"
    by code_simp
  have a7: "edge_from (ar_r1 ?r1) \<ge> diff_from ?s"
    by code_simp
  have a8: "edge_status (ar_r1 ?r1) = RelationshipStatus_ACTIVE"
    by code_simp
  have a9: "owner_action example_added_node_results ''branch2'' ''aaaaaaaa-0001'' = ADDED"
    by code_simp
  from diff_attrs_step_action [OF a1 a2 a3] a9 a7 a8
  have p1: "map_option node_action (results_node (fst ?X1) ''branch2'' ''aaaaaaaa-0001'')
        = Some ADDED
      \<and> map_option attr_action
        (results_attr (fst ?X1) ''branch2'' ''aaaaaaaa-0001'' ''name'') = Some ADDED"
    unfolding a4 a5 a6 by auto
  let ?r2 = "example_removed_attr_result"
  let ?X2 = "diff_attrs_step ?s ?r2 ([], {}, {})"
  have b1: "results_attr [] (edge_branch (ar_r2 ?r2))
      (vertex_uuid (ar_n ?r2)) (vertex_name (ar_a ?r2)) = None"
    by code_simp
  have b2: "\<not> (case edge_to (ar_r1 ?r2) of None \<Rightarrow> False | Some t \<Rightarrow> t < diff_to ?s)"
    by code_simp
  have b3: "?X2 = (fst ?X2, fst (snd ?X2), snd (snd ?X2))"
    by simp
  have b4: "edge_branch (ar_r2 ?r2) = ''branch2''"
    by code_simp
  have b5: "vertex_uuid (ar_n ?r2) = ''cccccccc-0001''"
    by code_simp
  have b6: "vertex_name (ar_a ?r2) = ''color''"
    by code_simp
  have b7: "edge_from (ar_r1 ?r2) \<ge> diff_from ?s"
    by code_simp
  have b8: "edge_status (ar_r1 ?r2) = RelationshipStatus_DELETED"
    by code_simp
  from diff_attrs_step_action [OF b1 b2 b3] b7 b8
  have p2: "map_option attr_action
      (results_attr (fst ?X2) ''branch2'' ''cccccccc-0001'' ''color'') = Some REMOVED"
    unfolding b4 b5 b6 by auto
  let ?r3 = "example_attr_results ! 0"
  let ?X3 = "diff_attrs_step ?s ?r3 ([], {}, {})"
  have c1: "results_attr [] (edge_branch (ar_r2 ?r3))
      (vertex_uuid (ar_n ?r3)) (vertex_name (ar_a ?r3)) = None"
    by code_simp
  have c2: "\<not> (case edge_to (ar_r1 ?r3) of None \<Rightarrow> False | Some t \<Rightarrow> t < diff_to ?s)"
    by code_simp
  have c3: "?X3 = (fst ?X3, fst (snd ?X3), snd (snd ?X3))"
    by simp
  have c4: "edge_branch (ar_r2 ?r3) = ''branch2''"
    by code_simp
  have c5: "vertex_uuid (ar_n ?r3) = ''cccccccc-0001''"
    by code_simp
  have c6: "vertex_name (ar_a ?r3) = ''name''"
    by code_simp
  have c7: "\<not> edge_from (ar_r1 ?r3) \<ge> diff_from ?s"
    by code_simp
  from diff_attrs_step_action [OF c1 c2 c3] c7
  have p3: "map_option (\<lambda>a. (attr_action a, attr_changed_at a))
      (results_attr (fst ?X3) ''branch2'' ''cccccccc-0001'' ''name'') = Some (UPDATED, None)"
    unfolding c4 c5 c6 by auto
  from a9 p1 p2 p3 show ?thesis
    by blast
qed

section \<open>Properties of \<open>merge\<close>\<close>

lemma validate_fold_passed:
  "fst (fold (\<lambda>(result, errors) (passed, messages).
               if \<not> result then (False, messages @ errors) else (passed, messages))
          repos (p, m))
   = (p \<and> (\<forall>(result, errors) \<in> set repos. result))"
proof (induction repos arbitrary: p m)
  case Nil
  then show ?case by simp
next
  case (Cons x repos)
  obtain result errors where x: "x = (result, errors)" by (cases x)
  show ?case
    by (cases result) (simp_all add: x Cons.IH)
qed

lemma validate_passed:
  assumes "Branch_diff db now B None None = Inr d"
    and "get_conflicts db now d = Inr (conflicts, d')"
  shows "\<exists>messages. validate db now B =
           Inr (conflicts = {} \<and> (\<forall>(result, errors) \<in> set (db_repositories db B). result),
                messages)"
proof -
  define m0 where "m0 = (if conflicts \<noteq> {}
      then map conflict_message (sorted_list_of_set conflicts) else [])"
  define r where "r = fold (\<lambda>(result, errors) (passed, messages).
               if \<not> result then (False, messages @ errors) else (passed, messages))
            (db_repositories db B) (conflicts = {}, m0)"
  have s0: "(if conflicts \<noteq> {}
             then (False, map conflict_message (sorted_list_of_set conflicts))
             else (True, [])) = (conflicts = {}, m0)"
    by (simp add: m0_def)
  have v: "validate db now B = Inr r"
    unfolding validate_def Let_def assms sum.case prod.case s0 r_def ..
  have "fst r = (conflicts = {} \<and> (\<forall>(result, errors) \<in> set (db_repositories db B). result))"
    unfolding r_def by (rule validate_fold_passed)
  then have "r = (conflicts = {} \<and> (\<forall>(result, errors) \<in> set (db_repositories db B). result),
      snd r)"
    by (cases r) simp
  with v show ?thesis
    by (intro exI [of _ "snd r"]) simp
qed
text \<open>The merge of the branch of the example graph without the update on \<open>main\<close>.\<close>

lemma example_merge_clean:
  "merge ''main'' example_db_clean 20 branch2 None =
     ([AddNodeToBranch 10 ''main'',
       AddRelationship 10 22 ''HAS_ATTRIBUTE'' 20 ''main'' None,
       AddRelationship 22 33 ''HAS_VALUE'' 20 ''main'' None,
       AddRelationship 20 30 ''HAS_VALUE'' 20 ''main'' None,
       AddRelationship 21 32 ''HAS_VALUE'' 20 ''main'' None,
       AddRelationship 40 34 ''IS_VISIBLE'' 20 ''main'' None,
       UpdateRelationshipsTo
         [Some 50, Some 53, Some 63, Some 60, Some 100, Some 62, Some 100, Some 64, Some 200]
         20,
       SaveBranch (branch2\<lparr>branched_from := 20\<rparr>)],
      Inr (branch2\<lparr>branched_from := 20\<rparr>))"
  by code_simp

text \<open>
  Claim C3, as the code has it. \<open>merge\<close> fails without a write to the graph when
  \<open>validate\<close> raises, when the set of conflicts is not empty or the checks of a
  repository fail, and when the branch has the name of the default branch. When the
  validation does not pass, the error is the generic \<open>Exception\<close> with the message
  \<open>Unable to merge the branch 'name', validation failed\<close>, the same for every set of
  conflicts.
\<close>

theorem merge_fails_without_writes:
  "(\<forall>e. validate db now B = Inl e \<longrightarrow> merge dn db now B at_arg = ([], Inl e))
   \<and> (\<forall>d conflicts d'.
        Branch_diff db now B None None = Inr d \<and> get_conflicts db now d = Inr (conflicts, d')
        \<and> (conflicts \<noteq> {} \<or> (\<exists>(result, errors) \<in> set (db_repositories db B). \<not> result))
        \<longrightarrow> merge dn db now B at_arg =
              ([], Inl (PyException (''Unable to merge the branch '' @ [CHR 0x27] @ name B
                                      @ [CHR 0x27] @ '', validation failed''))))
   \<and> (\<forall>passed messages.
        validate db now B = Inr (passed, messages) \<and> name B = dn
        \<longrightarrow> merge dn db now B at_arg =
              ([], Inl (PyException (''Unable to merge the branch '' @ [CHR 0x27] @ name B
                                      @ [CHR 0x27]
                                      @ (if passed then '' into itself''
                                         else '', validation failed'')))))"
proof (intro conjI allI impI)
  fix e
  assume "validate db now B = Inl e"
  then show "merge dn db now B at_arg = ([], Inl e)"
    by (simp add: merge_def)
next
  fix d conflicts d'
  assume a: "Branch_diff db now B None None = Inr d \<and>
      get_conflicts db now d = Inr (conflicts, d') \<and>
      (conflicts \<noteq> {} \<or> (\<exists>(result, errors) \<in> set (db_repositories db B). \<not> result))"
  then obtain messages where v: "validate db now B =
      Inr (conflicts = {} \<and> (\<forall>(result, errors) \<in> set (db_repositories db B). result),
           messages)"
    using validate_passed [of db now B d conflicts d'] by blast
  from a have "\<not> (conflicts = {}
      \<and> (\<forall>(result, errors) \<in> set (db_repositories db B). result))"
    by blast
  with v have "validate db now B = Inr (False, messages)"
    by simp
  then show "merge dn db now B at_arg =
      ([], Inl (PyException (''Unable to merge the branch '' @ [CHR 0x27] @ name B
                              @ [CHR 0x27] @ '', validation failed'')))"
    by (simp add: merge_def)
next
  fix passed messages
  assume "validate db now B = Inr (passed, messages) \<and> name B = dn"
  then show "merge dn db now B at_arg =
      ([], Inl (PyException (''Unable to merge the branch '' @ [CHR 0x27] @ name B
                              @ [CHR 0x27]
                              @ (if passed then '' into itself''
                                 else '', validation failed''))))"
    by (simp add: merge_def)
qed

theorem merge_fails_without_writes_witness:
  "validate example_db 20 main_branch
     = Inl (ValueError ''diff_from is mandatory when diffing on the default branch `main`.'')
   \<and> merge ''main'' example_db 20 main_branch None
     = ([], Inl (ValueError
                  ''diff_from is mandatory when diffing on the default branch `main`.''))
   \<and> Branch_diff example_db 20 branch2 None None = Inr (example_diff False)
   \<and> map_sum id fst (get_conflicts example_db 20 (example_diff False))
     = Inr {(''node'', ''cccccccc-0001'', ''name'', ''HAS_VALUE'')}
   \<and> merge ''main'' example_db 20 branch2 None
     = ([], Inl (PyException (''Unable to merge the branch '' @ [CHR 0x27] @ ''branch2''
                               @ [CHR 0x27] @ '', validation failed'')))
   \<and> map_sum id fst (get_conflicts example_db_failing_check 20 (example_diff False)) = Inr {}
   \<and> merge ''main'' example_db_failing_check 20 branch2 None
     = ([], Inl (PyException (''Unable to merge the branch '' @ [CHR 0x27] @ ''branch2''
                               @ [CHR 0x27] @ '', validation failed'')))
   \<and> validate example_db_clean 20 branch2 = Inr (True, [])
   \<and> merge ''branch2'' example_db_clean 20 branch2 None
     = ([], Inl (PyException (''Unable to merge the branch '' @ [CHR 0x27] @ ''branch2''
                               @ [CHR 0x27] @ '' into itself'')))"
proof -
  note t1 = merge_fails_without_writes [of example_db 20 main_branch "''main''" None]
  note t2 = merge_fails_without_writes [of example_db 20 branch2 "''main''" None]
  note t3 = merge_fails_without_writes [of example_db_failing_check 20 branch2 "''main''" None]
  note t4 = merge_fails_without_writes [of example_db_clean 20 branch2 "''branch2''" None]
  have n: "name branch2 = ''branch2''"
    by (simp add: branch2_def)
  have a1: "validate example_db 20 main_branch
     = Inl (ValueError ''diff_from is mandatory when diffing on the default branch `main`.'')"
    by code_simp
  with t1 have p1: "merge ''main'' example_db 20 main_branch None
     = ([], Inl (ValueError
                  ''diff_from is mandatory when diffing on the default branch `main`.''))"
    by blast
  have b1: "Branch_diff example_db 20 branch2 None None = Inr (example_diff False)"
    by code_simp
  have b2: "get_conflicts example_db 20 (example_diff False)
     = Inr ({(''node'', ''cccccccc-0001'', ''name'', ''HAS_VALUE'')},
            snd (projr (get_conflicts example_db 20 (example_diff False))))"
    by code_simp
  have b3: "{(''node'', ''cccccccc-0001'', ''name'', ''HAS_VALUE'')} \<noteq> ({} :: path set)"
    by simp
  from t2 b1 b2 b3 have p2: "merge ''main'' example_db 20 branch2 None
     = ([], Inl (PyException (''Unable to merge the branch '' @ [CHR 0x27] @ ''branch2''
                               @ [CHR 0x27] @ '', validation failed'')))"
    unfolding n by blast
  have c1: "Branch_diff example_db_failing_check 20 branch2 None None
      = Inr (example_diff False)"
    by code_simp
  have c2: "get_conflicts example_db_failing_check 20 (example_diff False)
     = Inr ({}, snd (projr (get_conflicts example_db_failing_check 20 (example_diff False))))"
    by code_simp
  have c3: "\<exists>(result, errors) \<in> set (db_repositories example_db_failing_check branch2).
      \<not> result"
    by (simp add: example_db_failing_check_def)
  from t3 c1 c2 c3 have p3: "merge ''main'' example_db_failing_check 20 branch2 None
     = ([], Inl (PyException (''Unable to merge the branch '' @ [CHR 0x27] @ ''branch2''
                               @ [CHR 0x27] @ '', validation failed'')))"
    unfolding n by blast
  have d1: "validate example_db_clean 20 branch2 = Inr (True, [])"
    by code_simp
  from t4 d1 n have p4: "merge ''branch2'' example_db_clean 20 branch2 None
     = ([], Inl (PyException (''Unable to merge the branch '' @ [CHR 0x27] @ ''branch2''
                               @ [CHR 0x27] @ '' into itself'')))"
    by auto
  from b2 have q2: "map_sum id fst (get_conflicts example_db 20 (example_diff False))
     = Inr {(''node'', ''cccccccc-0001'', ''name'', ''HAS_VALUE'')}"
    by (metis fst_conv id_apply map_sum.simps(2))
  from c2 have q3: "map_sum id fst
      (get_conflicts example_db_failing_check 20 (example_diff False)) = Inr {}"
    by (metis fst_conv id_apply map_sum.simps(2))
  from a1 p1 b1 q2 p2 q3 p3 d1 p4 show ?thesis
    by blast
qed

text \<open>
  Claim C3 as it is stated fails in its second part: with two different sets of
  conflicts \<open>merge\<close> raises one and the same error, the generic exception whose message
  names the branch; the error carries no path.
\<close>

theorem merge_error_without_paths_counterexample:
  "Branch_diff example_db 20 branch2 None None = Inr (example_diff False)
   \<and> Branch_diff example_db_description 20 branch2 None None = Inr (example_diff False)
   \<and> map_sum id fst (get_conflicts example_db 20 (example_diff False))
     = Inr {(''node'', ''cccccccc-0001'', ''name'', ''HAS_VALUE'')}
   \<and> map_sum id fst (get_conflicts example_db_description 20 (example_diff False))
     = Inr {(''node'', ''cccccccc-0001'', ''description'', ''HAS_VALUE'')}
   \<and> merge ''main'' example_db 20 branch2 None
     = ([], Inl (PyException (''Unable to merge the branch '' @ [CHR 0x27] @ ''branch2''
                               @ [CHR 0x27] @ '', validation failed'')))
   \<and> merge ''main'' example_db_description 20 branch2 None
     = merge ''main'' example_db 20 branch2 None"
  by code_simp

end
